theory Spec2Isabelle
  imports Complex_Main "HOL-Library.AList"
begin

section \<open>Python values\<close>

text \<open>
  The program of \<^verbatim>\<open>backend/app/main.py\<close> handles JSON data throughout: the preference
  snapshot is a \<^verbatim>\<open>Dict[str, Any]\<close>, provider responses and tool arguments are decoded
  JSON. \<open>pyval\<close> is the type of these values. A dict is an association list: Python
  dicts keep insertion order, and \<^verbatim>\<open>d[k] = v\<close> overwrites in place or appends, which is
  \<open>AList.update\<close>. Characters are the code points below 256.
\<close>

datatype pyval =
    PNone
  | PBool bool
  | PInt int
  | PFloat real
  | PStr string
  | PList "pyval list"
  | PDict "(string \<times> pyval) list"

type_synonym pydict = "(string \<times> pyval) list"

text \<open>Exceptions that leave a function of the program (it catches the others itself).\<close>

datatype fault =
    TransportError
  | JSONDecodeError
  | AttributeError
  | TypeError
  | KeyError
  | IndexError
  | ValidationError

text \<open>Truthiness, as \<^verbatim>\<open>if x:\<close>, \<^verbatim>\<open>not x\<close> and \<^verbatim>\<open>x or y\<close> read it.\<close>

fun truthy :: "pyval \<Rightarrow> bool" where
  "truthy PNone = False"
| "truthy (PBool b) = b"
| "truthy (PInt n) = (n \<noteq> 0)"
| "truthy (PFloat x) = (x \<noteq> 0)"
| "truthy (PStr s) = (s \<noteq> [])"
| "truthy (PList xs) = (xs \<noteq> [])"
| "truthy (PDict kvs) = (kvs \<noteq> [])"

text \<open>\<^verbatim>\<open>d.get(k)\<close> and \<^verbatim>\<open>d.get(k, default)\<close> on a dict.\<close>

definition dict_get :: "pydict \<Rightarrow> string \<Rightarrow> pyval" where
  "dict_get d k = (case map_of d k of None \<Rightarrow> PNone | Some v \<Rightarrow> v)"

definition dict_get_default :: "pydict \<Rightarrow> string \<Rightarrow> pyval \<Rightarrow> pyval" where
  "dict_get_default d k dflt = (case map_of d k of None \<Rightarrow> dflt | Some v \<Rightarrow> v)"

text \<open>\<^verbatim>\<open>d.setdefault(k, v)\<close>: a present key keeps its value, whatever it is.\<close>

definition dict_setdefault :: "pydict \<Rightarrow> string \<Rightarrow> pyval \<Rightarrow> pydict" where
  "dict_setdefault d k v = (case map_of d k of None \<Rightarrow> AList.update k v d | Some _ \<Rightarrow> d)"

text \<open>
  The same operations on a value of unknown shape, as the program applies them to decoded
  JSON: \<^verbatim>\<open>x.get(k, default)\<close> exists on dicts only, \<^verbatim>\<open>x[0]\<close> reads a list or a string,
  \<^verbatim>\<open>x[k]\<close> with a string key reads a dict, \<^verbatim>\<open>for y in x\<close> runs over a list, the
  characters of a string or the keys of a dict.
\<close>

fun py_get :: "pyval \<Rightarrow> string \<Rightarrow> pyval \<Rightarrow> fault + pyval" where
  "py_get (PDict d) k dflt = Inr (dict_get_default d k dflt)"
| "py_get _ k dflt = Inl AttributeError"

fun py_index0 :: "pyval \<Rightarrow> fault + pyval" where
  "py_index0 (PList xs) = (case xs of [] \<Rightarrow> Inl IndexError | x # _ \<Rightarrow> Inr x)"
| "py_index0 (PStr s) = (case s of [] \<Rightarrow> Inl IndexError | c # _ \<Rightarrow> Inr (PStr [c]))"
| "py_index0 (PDict d) = Inl KeyError"
| "py_index0 _ = Inl TypeError"

fun py_getitem :: "pyval \<Rightarrow> string \<Rightarrow> fault + pyval" where
  "py_getitem (PDict d) k = (case map_of d k of None \<Rightarrow> Inl KeyError | Some v \<Rightarrow> Inr v)"
| "py_getitem _ k = Inl TypeError"

fun py_iter :: "pyval \<Rightarrow> fault + pyval list" where
  "py_iter (PList xs) = Inr xs"
| "py_iter (PStr s) = Inr (map (\<lambda>c. PStr [c]) s)"
| "py_iter (PDict d) = Inr (map (\<lambda>kv. PStr (fst kv)) d)"
| "py_iter _ = Inl TypeError"

text \<open>\<^verbatim>\<open>k in x\<close> for a string \<open>k\<close>: a key of a dict, an element of a list, a substring of a string.\<close>

fun starts_with :: "string \<Rightarrow> string \<Rightarrow> bool" where
  "starts_with s [] = True"
| "starts_with [] (p # ps) = False"
| "starts_with (c # cs) (p # ps) = (c = p \<and> starts_with cs ps)"

fun contains_str :: "string \<Rightarrow> string \<Rightarrow> bool" where
  "contains_str [] p = (p = [])"
| "contains_str (c # cs) p = (starts_with (c # cs) p \<or> contains_str cs p)"

fun py_contains :: "string \<Rightarrow> pyval \<Rightarrow> fault + bool" where
  "py_contains k (PDict d) = Inr (map_of d k \<noteq> None)"
| "py_contains k (PList xs) = Inr (PStr k \<in> set xs)"
| "py_contains k (PStr s) = Inr (contains_str s k)"
| "py_contains k _ = Inl TypeError"

section \<open>Strings\<close>

text \<open>\<^verbatim>\<open>sep.join(parts)\<close>.\<close>

fun join_str :: "string \<Rightarrow> string list \<Rightarrow> string" where
  "join_str sep [] = []"
| "join_str sep [x] = x"
| "join_str sep (x # y # ys) = x @ sep @ join_str sep (y # ys)"

text \<open>
  \<^verbatim>\<open>s.split(c)\<close> for a one-character separator: the result is never empty, and the
  empty string gives one empty token.
\<close>

fun split_on :: "char \<Rightarrow> string \<Rightarrow> string list" where
  "split_on c [] = [[]]"
| "split_on c (x # xs) =
     (if x = c then [] # split_on c xs
      else (case split_on c xs of [] \<Rightarrow> [[x]] | t # ts \<Rightarrow> (x # t) # ts))"

text \<open>
  \<^verbatim>\<open>s.strip()\<close> removes the characters for which \<^verbatim>\<open>str.isspace\<close> holds from both ends:
  below 256 these are 9 to 13, 28 to 32, 133 and 160.
\<close>

definition is_space :: "char \<Rightarrow> bool" where
  "is_space c =
     (let n = (of_char c :: nat)
      in (9 \<le> n \<and> n \<le> 13) \<or> (28 \<le> n \<and> n \<le> 32) \<or> n = 133 \<or> n = 160)"

definition strip :: "string \<Rightarrow> string" where
  "strip s = rev (dropWhile is_space (rev (dropWhile is_space s)))"

section \<open>Configuration and the outside world\<close>

text \<open>
  The two module-level keys, read once from the process environment. An empty key is an
  unset key (\<^verbatim>\<open>if not OPENAI_API_KEY\<close>).
\<close>

record config =
  OPENAI_API_KEY :: string
  EXA_API_KEY :: string

text \<open>A reply of \<^verbatim>\<open>requests.post\<close> to the chat endpoint: the call raises, or answers with a status and a body.\<close>

datatype http_outcome = Raised | Response nat string

text \<open>
  What the program takes from outside itself, as parameters. \<open>'w\<close> is the state of the
  world, threaded through every network call so that two calls may answer differently.
  \<^item> \<open>py_repr\<close>: \<^verbatim>\<open>str(v)\<close> of a value that is not a string, as an f-string formats it;
  \<^item> \<open>exc_str\<close>: \<^verbatim>\<open>str(e)\<close> of an exception raised inside Python;
  \<^item> \<open>json_dumps\<close>, \<open>json_loads\<close>: the \<^verbatim>\<open>json\<close> module (\<open>None\<close> is a decoding error);
  \<^item> \<open>exa_post\<close>: lines 57 to 59 for a query and a result count, the message of the
    exception raised there or the decoded body;
  \<^item> \<open>responses_post\<close>: lines 102 to 104 for a prompt, likewise;
  \<^item> \<open>chat_post\<close>: line 255 for the message list sent.
\<close>

record 'w env =
  py_repr :: "pyval \<Rightarrow> string"
  exc_str :: "fault \<Rightarrow> string"
  json_dumps :: "pyval \<Rightarrow> string"
  json_loads :: "string \<Rightarrow> pyval option"
  exa_post :: "'w \<Rightarrow> string \<Rightarrow> pyval \<Rightarrow> (string + pyval) \<times> 'w"
  responses_post :: "'w \<Rightarrow> string \<Rightarrow> (string + pyval) \<times> 'w"
  chat_post :: "'w \<Rightarrow> pyval list \<Rightarrow> http_outcome \<times> 'w"

text \<open>\<^verbatim>\<open>f"{v}"\<close>: a string is inserted as it is.\<close>

definition py_str :: "'w env \<Rightarrow> pyval \<Rightarrow> string" where
  "py_str env v = (case v of PStr s \<Rightarrow> s | _ \<Rightarrow> py_repr env v)"

text \<open>\<^verbatim>\<open>x or y\<close>.\<close>

definition py_or :: "pyval \<Rightarrow> pyval \<Rightarrow> pyval" where
  "py_or x y = (if truthy x then x else y)"

section \<open>The preference store\<close>

text \<open>
  Lines 286 to 291, the body of the \<^verbatim>\<open>save_preferences\<close> branch. \<open>fargs\<close> is whatever
  \<^verbatim>\<open>json.loads\<close> returned: \<^verbatim>\<open>k in fargs\<close> and \<^verbatim>\<open>fargs[k]\<close> raise on some shapes.
\<close>

definition split_topics :: "string \<Rightarrow> pyval" where
  "split_topics s =
     PList (map PStr (filter (\<lambda>t. t \<noteq> []) (map strip (split_on (CHR '','') s))))"

definition save_key :: "pyval \<Rightarrow> pydict \<Rightarrow> string \<Rightarrow> fault + pydict" where
  "save_key fargs prefs k =
     (case py_contains k fargs of
        Inl e \<Rightarrow> Inl e
      | Inr False \<Rightarrow> Inr prefs
      | Inr True \<Rightarrow>
          (case py_getitem fargs k of
             Inl e \<Rightarrow> Inl e
           | Inr v \<Rightarrow>
               if v = PNone then Inr prefs
               else (case v of
                       PStr s \<Rightarrow>
                         if k = ''topics'' then Inr (AList.update k (split_topics s) prefs)
                         else Inr (AList.update k v prefs)
                     | _ \<Rightarrow> Inr (AList.update k v prefs))))"

fun save_keys :: "pyval \<Rightarrow> pydict \<Rightarrow> string list \<Rightarrow> fault + pydict" where
  "save_keys fargs prefs [] = Inr prefs"
| "save_keys fargs prefs (k # ks) =
     (case save_key fargs prefs k of
        Inl e \<Rightarrow> Inl e
      | Inr prefs' \<Rightarrow> save_keys fargs prefs' ks)"

definition recognized_keys :: "string list" where
  "recognized_keys = [''tone'', ''format'', ''language'', ''interaction'', ''topics'']"

definition save_preferences :: "pyval \<Rightarrow> pydict \<Rightarrow> fault + pydict" where
  "save_preferences fargs prefs = save_keys fargs prefs recognized_keys"

text \<open>Sequencing of steps that may raise.\<close>

definition and_then :: "fault + 'a \<Rightarrow> ('a \<Rightarrow> fault + 'b) \<Rightarrow> fault + 'b" where
  "and_then m f = (case m of Inl e \<Rightarrow> Inl e | Inr x \<Rightarrow> f x)"

section \<open>Retrieval adapter\<close>

text \<open>
  \<^verbatim>\<open>for item in x[:n]\<close> (line 61): a list or a string can be sliced, the bound is an
  integer (a negative one counts from the end), a boolean or \<^verbatim>\<open>None\<close>.
\<close>

definition slice_upto :: "'a list \<Rightarrow> int \<Rightarrow> 'a list" where
  "slice_upto xs n = (if 0 \<le> n then take (nat n) xs else take (length xs - nat (- n)) xs)"

fun slice_bound :: "pyval \<Rightarrow> 'a list \<Rightarrow> fault + 'a list" where
  "slice_bound PNone xs = Inr xs"
| "slice_bound (PInt n) xs = Inr (slice_upto xs n)"
| "slice_bound (PBool b) xs = Inr (slice_upto xs (if b then 1 else 0))"
| "slice_bound _ xs = Inl TypeError"

fun py_slice_iter :: "pyval \<Rightarrow> pyval \<Rightarrow> fault + pyval list" where
  "py_slice_iter (PList xs) n = slice_bound n xs"
| "py_slice_iter (PStr s) n = slice_bound n (map (\<lambda>c. PStr [c]) s)"
| "py_slice_iter _ n = Inl TypeError"

text \<open>Lines 62 to 67: one article record; \<^verbatim>\<open>item.get\<close> exists on a dict only.\<close>

fun project_item :: "pyval \<Rightarrow> fault + pyval" where
  "project_item (PDict it) =
     Inr (PDict [(''title'', dict_get it ''title''),
                 (''url'', dict_get it ''url''),
                 (''summary'', dict_get it ''summary''),
                 (''publishedDate'', dict_get it ''publishedDate'')])"
| "project_item _ = Inl AttributeError"

fun project_items :: "pyval list \<Rightarrow> pyval list \<Rightarrow> fault + pyval list" where
  "project_items [] results = Inr results"
| "project_items (item # rest) results =
     (case project_item item of
        Inl e \<Rightarrow> Inl e
      | Inr r \<Rightarrow> project_items rest (results @ [r]))"

definition project_results :: "pyval \<Rightarrow> pyval \<Rightarrow> fault + pyval list" where
  "project_results data num_results =
     and_then (py_get data ''results'' (PList [])) (\<lambda>rs.
     and_then (py_slice_iter rs num_results) (\<lambda>items.
     project_items items []))"

text \<open>
  \<^verbatim>\<open>exa_news_fetch\<close> (lines 42 to 70). Every exception of the \<^verbatim>\<open>try\<close> block becomes
  the dict \<^verbatim>\<open>{"error": str(e)}\<close>, so the function itself never raises.
\<close>

definition exa_news_fetch ::
  "'w env \<Rightarrow> config \<Rightarrow> 'w \<Rightarrow> pyval \<Rightarrow> pyval \<Rightarrow> pydict \<times> 'w" where
  "exa_news_fetch env cfg w topic num_results =
     (if EXA_API_KEY cfg = [] then ([(''error'', PStr ''Missing EXA_API_KEY'')], w)
      else
        (case exa_post env w (''latest news about '' @ py_str env topic) num_results of
           (Inl msg, w') \<Rightarrow> ([(''error'', PStr msg)], w')
         | (Inr data, w') \<Rightarrow>
             (case project_results data num_results of
                Inl e \<Rightarrow> ([(''error'', PStr (exc_str env e))], w')
              | Inr results \<Rightarrow> ([(''results'', PList results)], w'))))"

section \<open>Summarization adapter\<close>

text \<open>The bullet line of lines 79 and 113.\<close>

definition bullet :: "'w env \<Rightarrow> pyval \<Rightarrow> fault + string" where
  "bullet env it =
     (case it of
        PDict d \<Rightarrow>
          Inr (''- '' @ py_str env (dict_get d ''title'') @ '': '' @
               py_str env (py_or (dict_get d ''summary'') (PStr ''No summary available'')))
      | _ \<Rightarrow> Inl AttributeError)"

fun bullets_loop :: "'w env \<Rightarrow> pyval list \<Rightarrow> string list \<Rightarrow> fault + string list" where
  "bullets_loop env [] bullets = Inr bullets"
| "bullets_loop env (it # its) bullets =
     (case bullet env it of
        Inl e \<Rightarrow> Inl e
      | Inr b \<Rightarrow> bullets_loop env its (bullets @ [b]))"

definition fallback_summary :: "'w env \<Rightarrow> pyval \<Rightarrow> fault + string" where
  "fallback_summary env items =
     and_then (py_iter items) (\<lambda>its.
     and_then (bullets_loop env its []) (\<lambda>bullets.
     Inr (join_str [CHR 0x0A] bullets)))"

text \<open>Lines 82 to 90: the prompt. \<^verbatim>\<open>json.dumps(items)\<close> stands before the \<^verbatim>\<open>try\<close>.\<close>

definition summary_prompt :: "'w env \<Rightarrow> pyval \<Rightarrow> pyval \<Rightarrow> pyval \<Rightarrow> pyval \<Rightarrow> pyval \<Rightarrow> string" where
  "summary_prompt env items style format' language tone =
     ''You are a helpful assistant summarizing news articles.'' @ [CHR 0x0A] @
     ''Tone: '' @ py_str env tone @ ''. Interaction style: '' @ py_str env style @
     ''. Format: '' @ py_str env format' @ ''. Language: '' @ py_str env language @ ''.'' @ [CHR 0x0A] @
     ''Summarize the following news items with citations to their URLs. Keep it factual and recent.'' @
     [CHR 0x0A] @ json_dumps env items"

text \<open>Lines 105 to 108: the two places of the response where the text may stand.\<close>

definition extract_primary :: "pyval \<Rightarrow> fault + pyval" where
  "extract_primary data =
     and_then (py_get data ''output'' (PList [PDict []])) (\<lambda>a.
     and_then (py_index0 a) (\<lambda>b.
     and_then (py_get b ''content'' (PList [PDict []])) (\<lambda>c.
     and_then (py_index0 c) (\<lambda>d.
     py_get d ''text'' PNone))))"

definition extract_secondary :: "pyval \<Rightarrow> fault + pyval" where
  "extract_secondary data =
     and_then (py_get data ''choices'' (PList [PDict []])) (\<lambda>a.
     and_then (py_index0 a) (\<lambda>b.
     and_then (py_get b ''message'' (PDict [])) (\<lambda>c.
     py_get c ''content'' PNone)))"

definition extract_text :: "pyval \<Rightarrow> fault + pyval" where
  "extract_text data =
     and_then (extract_primary data) (\<lambda>text_out.
     if \<not> truthy text_out then extract_secondary data else Inr text_out)"

text \<open>
  \<^verbatim>\<open>summarize_news\<close> (lines 73 to 114). Without a key it renders the bullets and makes
  no call. With a key, a failure of the call or of the extraction is caught and the
  bullets are returned with a warning; an exception of the bullet loop itself (an item
  that is no dict) leaves the function in either branch.
\<close>

definition summarize_news ::
  "'w env \<Rightarrow> config \<Rightarrow> 'w \<Rightarrow> pyval \<Rightarrow> pyval \<Rightarrow> pyval \<Rightarrow> pyval \<Rightarrow> pyval \<Rightarrow> fault + pydict \<times> 'w" where
  "summarize_news env cfg w items style format' language tone =
     (if OPENAI_API_KEY cfg = [] then
        and_then (fallback_summary env items) (\<lambda>s. Inr ([(''summary'', PStr s)], w))
      else
        (case responses_post env w (summary_prompt env items style format' language tone) of
           (Inl msg, w') \<Rightarrow>
             and_then (fallback_summary env items) (\<lambda>s.
               Inr ([(''summary'', PStr s), (''warning'', PStr msg)], w'))
         | (Inr data, w') \<Rightarrow>
             (case extract_text data of
                Inl e \<Rightarrow>
                  and_then (fallback_summary env items) (\<lambda>s.
                    Inr ([(''summary'', PStr s), (''warning'', PStr (exc_str env e))], w'))
              | Inr text_out \<Rightarrow> Inr ([(''summary'', py_or text_out (PStr []))], w'))))"

section \<open>The orchestrator without a reasoning-model key\<close>

record turn_result =
  assistant_message :: pyval
  preferences :: pydict

definition questions :: "(string \<times> string) list" where
  "questions =
     [(''tone'', ''Preferred Tone of Voice (e.g., formal, casual, enthusiastic)?''),
      (''format'', ''Preferred Response Format (e.g., bullet points, paragraphs)?''),
      (''language'', ''Language Preference (e.g., English, Spanish)?''),
      (''interaction'', ''Interaction Style (e.g., concise, detailed)?''),
      (''topics'', ''Preferred News Topics (e.g., technology, sports, politics)?'')]"

text \<open>Lines 133 to 138: the first question whose key is unset is returned at once.\<close>

fun first_question :: "pydict \<Rightarrow> (string \<times> string) list \<Rightarrow> string option" where
  "first_question updated [] = None"
| "first_question updated ((key, q) # rest) =
     (if \<not> truthy (dict_get updated key) then Some q else first_question updated rest)"

text \<open>Lines 146 to 152: one section per topic, appended to \<^verbatim>\<open>result_texts\<close>.\<close>

fun fetch_topics ::
  "'w env \<Rightarrow> config \<Rightarrow> pydict \<Rightarrow> 'w \<Rightarrow> pyval list \<Rightarrow> string list \<Rightarrow> fault + string list \<times> 'w" where
  "fetch_topics env cfg updated w [] result_texts = Inr (result_texts, w)"
| "fetch_topics env cfg updated w (topic # rest) result_texts =
     (case exa_news_fetch env cfg w topic (PInt 5) of
        (exa, w1) \<Rightarrow>
          (case map_of exa ''results'' of
             Some items \<Rightarrow>
               (case summarize_news env cfg w1 items
                       (dict_get_default updated ''interaction'' (PStr ''concise''))
                       (dict_get_default updated ''format'' (PStr ''bullet points''))
                       (dict_get_default updated ''language'' (PStr ''English''))
                       (dict_get_default updated ''tone'' (PStr ''neutral'')) of
                  Inl e \<Rightarrow> Inl e
                | Inr (summ, w2) \<Rightarrow>
                    fetch_topics env cfg updated w2 rest
                      (result_texts @
                        [''Topic: '' @ py_str env topic @ [CHR 0x0A] @
                         py_str env (dict_get summ ''summary'')]))
           | None \<Rightarrow>
               fetch_topics env cfg updated w1 rest
                 (result_texts @
                   [''Topic: '' @ py_str env topic @ [CHR 0x0A] @ ''Exa error: '' @
                    py_str env (dict_get exa ''error'')])))"

text \<open>Lines 123 to 156.\<close>

definition offline_bot ::
  "'w env \<Rightarrow> config \<Rightarrow> 'w \<Rightarrow> pydict \<Rightarrow> fault + turn_result \<times> 'w" where
  "offline_bot env cfg w prefs0 =
     (let updated = prefs0 in
      case first_question updated questions of
        Some q \<Rightarrow> Inr (\<lparr>assistant_message = PStr q, preferences = updated\<rparr>, w)
      | None \<Rightarrow>
          (let topics = dict_get updated ''topics'';
               tlist = (case topics of PList ts \<Rightarrow> ts | _ \<Rightarrow> [topics])
           in case fetch_topics env cfg updated w tlist [] of
                Inl e \<Rightarrow> Inl e
              | Inr (result_texts, w') \<Rightarrow>
                  Inr (\<lparr>assistant_message = PStr (join_str [CHR 0x0A, CHR 0x0A] result_texts),
                        preferences = updated\<rparr>, w')))"

section \<open>The orchestrator with a reasoning-model key\<close>

text \<open>
  The mutable state of the loop of lines 248 to 312: the transcript \<^verbatim>\<open>oai_messages\<close>,
  the preferences \<^verbatim>\<open>prefs\<close>, and the world.
\<close>

record 'w loop_state =
  st_messages :: "pyval list"
  st_prefs :: pydict
  st_world :: 'w

text \<open>\<^verbatim>\<open>json.loads(a)\<close>: \<open>a\<close> must be a string, and must decode.\<close>

definition loads :: "'w env \<Rightarrow> pyval \<Rightarrow> fault + pyval" where
  "loads env a =
     (case a of
        PStr s \<Rightarrow> (case json_loads env s of None \<Rightarrow> Inl JSONDecodeError | Some v \<Rightarrow> Inr v)
      | _ \<Rightarrow> Inl TypeError)"

text \<open>
  \<^verbatim>\<open>exa_news_fetch(**fargs)\<close> (line 276): \<open>fargs\<close> must be a dict whose keys are
  parameters of the function, \<^verbatim>\<open>topic\<close> among them; \<^verbatim>\<open>num_results\<close> defaults to 5.
\<close>

definition call_exa_news_fetch :: "'w env \<Rightarrow> config \<Rightarrow> 'w \<Rightarrow> pyval \<Rightarrow> fault + pyval \<times> 'w" where
  "call_exa_news_fetch env cfg w fargs =
     (case fargs of
        PDict d \<Rightarrow>
          if list_all (\<lambda>k. List.member [''topic'', ''num_results''] k) (map fst d)
             \<and> map_of d ''topic'' \<noteq> None
          then (case exa_news_fetch env cfg w (dict_get d ''topic'')
                       (dict_get_default d ''num_results'' (PInt 5)) of
                  (r, w') \<Rightarrow> Inr (PDict r, w'))
          else Inl TypeError
      | _ \<Rightarrow> Inl TypeError)"

text \<open>
  Lines 279 to 283: \<^verbatim>\<open>fargs.setdefault\<close> exists on a dict only; then
  \<^verbatim>\<open>summarize_news(**fargs)\<close>, where \<^verbatim>\<open>items\<close> is required.
\<close>

definition call_summarize_news ::
  "'w env \<Rightarrow> config \<Rightarrow> 'w \<Rightarrow> pydict \<Rightarrow> pyval \<Rightarrow> fault + pyval \<times> 'w" where
  "call_summarize_news env cfg w prefs fargs =
     (case fargs of
        PDict d0 \<Rightarrow>
          (let d1 = dict_setdefault d0 ''style'' (dict_get_default prefs ''interaction'' (PStr ''concise''));
               d2 = dict_setdefault d1 ''format_'' (dict_get_default prefs ''format'' (PStr ''bullet points''));
               d3 = dict_setdefault d2 ''language'' (dict_get_default prefs ''language'' (PStr ''English''));
               d4 = dict_setdefault d3 ''tone'' (dict_get_default prefs ''tone'' (PStr ''neutral''))
           in if list_all (\<lambda>k. List.member [''items'', ''style'', ''format_'', ''language'', ''tone''] k)
                   (map fst d4)
                 \<and> map_of d4 ''items'' \<noteq> None
              then (case summarize_news env cfg w (dict_get d4 ''items'') (dict_get d4 ''style'')
                           (dict_get d4 ''format_'') (dict_get d4 ''language'') (dict_get d4 ''tone'') of
                      Inl e \<Rightarrow> Inl e
                    | Inr (r, w') \<Rightarrow> Inr (PDict r, w'))
              else Inl TypeError)
      | _ \<Rightarrow> Inl AttributeError)"

text \<open>Lines 275 to 294: the dispatch on the tool's name; the result, the preferences, the world.\<close>

definition dispatch_tool ::
  "'w env \<Rightarrow> config \<Rightarrow> 'w \<Rightarrow> pydict \<Rightarrow> pyval \<Rightarrow> pyval \<Rightarrow> fault + pyval \<times> pydict \<times> 'w" where
  "dispatch_tool env cfg w prefs fname fargs =
     (if fname = PStr ''exa_news_fetch'' then
        and_then (call_exa_news_fetch env cfg w fargs) (\<lambda>(result, w'). Inr (result, prefs, w'))
      else if fname = PStr ''summarize_news'' then
        and_then (call_summarize_news env cfg w prefs fargs) (\<lambda>(result, w'). Inr (result, prefs, w'))
      else if fname = PStr ''save_preferences'' then
        and_then (save_preferences fargs prefs) (\<lambda>prefs'.
          Inr (PDict [(''ok'', PBool True), (''preferences'', PDict prefs')], prefs', w))
      else Inr (PDict [(''error'', PStr (''Unknown tool '' @ py_str env fname))], prefs, w))"

text \<open>Lines 272 to 301: one tool call, and the tool message appended for it.\<close>

definition exec_tool_call :: "'w env \<Rightarrow> config \<Rightarrow> 'w loop_state \<Rightarrow> pyval \<Rightarrow> fault + 'w loop_state" where
  "exec_tool_call env cfg st tc =
     and_then (py_getitem tc ''function'') (\<lambda>fn.
     and_then (py_getitem fn ''name'') (\<lambda>fname.
     and_then (py_get fn ''arguments'' (PStr ''{}'')) (\<lambda>a.
     and_then (loads env a) (\<lambda>fargs.
     and_then (dispatch_tool env cfg (st_world st) (st_prefs st) fname fargs) (\<lambda>(result, prefs', w').
     and_then (py_get tc ''id'' (PStr [])) (\<lambda>call_id.
       Inr \<lparr>st_messages = st_messages st @
               [PDict [(''role'', PStr ''tool''),
                       (''content'', PStr (json_dumps env result)),
                       (''tool_call_id'', call_id)]],
            st_prefs = prefs', st_world = w'\<rparr>))))))"

text \<open>Line 271: the calls of one response, in the order of the list.\<close>

fun exec_tool_calls :: "'w env \<Rightarrow> config \<Rightarrow> 'w loop_state \<Rightarrow> pyval list \<Rightarrow> fault + 'w loop_state" where
  "exec_tool_calls env cfg st [] = Inr st"
| "exec_tool_calls env cfg st (tc # tcs) =
     (case exec_tool_call env cfg st tc of
        Inl e \<Rightarrow> Inl e
      | Inr st' \<Rightarrow> exec_tool_calls env cfg st' tcs)"

text \<open>Lines 266 and 267: \<^verbatim>\<open>data.get("choices", [{}])[0].get("message", {})\<close>.\<close>

definition first_message :: "pyval \<Rightarrow> fault + pyval" where
  "first_message data =
     and_then (py_get data ''choices'' (PList [PDict []])) (\<lambda>choices.
     and_then (py_index0 choices) (\<lambda>choice.
     py_get choice ''message'' (PDict [])))"

definition prefs_note :: "'w env \<Rightarrow> string \<Rightarrow> pydict \<Rightarrow> pyval" where
  "prefs_note env label prefs =
     PDict [(''role'', PStr ''system''), (''content'', PStr (label @ json_dumps env (PDict prefs)))]"

text \<open>
  One pass of the body of \<^verbatim>\<open>while True\<close>: \<open>Inl\<close> leaves the loop (by \<^verbatim>\<open>return\<close>, or
  by an exception that nothing catches), \<open>Inr\<close> is \<^verbatim>\<open>continue\<close> with the new state.
\<close>

definition loop_iteration ::
  "'w env \<Rightarrow> config \<Rightarrow> 'w loop_state \<Rightarrow> (fault + turn_result \<times> 'w) + 'w loop_state" where
  "loop_iteration env cfg st =
     (case chat_post env (st_world st) (st_messages st) of
        (Raised, w') \<Rightarrow> Inl (Inl TransportError)
      | (Response status_code body, w') \<Rightarrow>
          if status_code \<ge> 400 then
            (let detail = (case json_loads env body of
                             Some v \<Rightarrow> v
                           | None \<Rightarrow> PDict [(''error'', PStr body)])
             in Inl (Inr (\<lparr>assistant_message =
                              PStr (''OpenAI error '' @ py_str env (PInt (int status_code)) @ '': '' @
                                    py_str env detail),
                            preferences = st_prefs st\<rparr>, w')))
          else
            (case json_loads env body of
               None \<Rightarrow> Inl (Inl JSONDecodeError)
             | Some data \<Rightarrow>
                 (case first_message data of
                    Inl e \<Rightarrow> Inl (Inl e)
                  | Inr message \<Rightarrow>
                      (case py_get message ''tool_calls'' PNone of
                         Inl e \<Rightarrow> Inl (Inl e)
                       | Inr tool_calls \<Rightarrow>
                           if truthy tool_calls then
                             (case py_iter tool_calls of
                                Inl e \<Rightarrow> Inl (Inl e)
                              | Inr tcs \<Rightarrow>
                                  (case exec_tool_calls env cfg (st\<lparr>st_world := w'\<rparr>) tcs of
                                     Inl e \<Rightarrow> Inl (Inl e)
                                   | Inr st' \<Rightarrow>
                                       Inr (st'\<lparr>st_messages := st_messages st' @
                                              [prefs_note env ''Updated preferences JSON: '' (st_prefs st')]\<rparr>)))
                           else
                             (case py_get message ''content'' (PStr []) of
                                Inl e \<Rightarrow> Inl (Inl e)
                              | Inr assistant_content \<Rightarrow>
                                  Inl (Inr (\<lparr>assistant_message = assistant_content,
                                             preferences = st_prefs st\<rparr>, w')))))))"

text \<open>
  The loop has no bound: it runs until a pass leaves it. \<open>None\<close> is a loop that never
  ends.
\<close>

partial_function (option) tool_loop ::
  "'w env \<Rightarrow> config \<Rightarrow> 'w loop_state \<Rightarrow> (fault + turn_result \<times> 'w) option" where
  "tool_loop env cfg st =
     (case loop_iteration env cfg st of
        Inl r \<Rightarrow> Some r
      | Inr st' \<Rightarrow> tool_loop env cfg st')"

section \<open>The turn\<close>

record Message =
  role :: string
  content :: string

record ChatRequest =
  req_messages :: "Message list"
  req_preferences :: "pydict option"

record ChatResponse =
  resp_messages :: "Message list"
  updatedPreferences :: pydict

definition sys_prompt :: string where
  "sys_prompt =
     ''You are a Latest News Agent. First, ensure the following preferences are collected: '' @
     ''tone, format, language, interaction, topics. Ask one question at a time until all are collected. '' @
     ''When the user supplies a preference, call save_preferences with the structured values. '' @
     ''After preferences are set, if the user requests news or summaries, use exa_news_fetch followed by summarize_news. '' @
     ''Always return answers in the user's preferred language, tone, interaction style, and format.''"

text \<open>Lines 234 to 246: the transcript and the preferences the loop starts from.\<close>

definition initial_state :: "'w env \<Rightarrow> 'w \<Rightarrow> Message list \<Rightarrow> pydict \<Rightarrow> 'w loop_state" where
  "initial_state env w msgs prefs0 =
     \<lparr>st_messages =
        [PDict [(''role'', PStr ''system''), (''content'', PStr sys_prompt)]] @
        map (\<lambda>m. PDict [(''role'', PStr (role m)), (''content'', PStr (content m))]) msgs @
        [prefs_note env ''Current preferences JSON: '' prefs0],
      st_prefs = prefs0, st_world = w\<rparr>"

text \<open>\<^verbatim>\<open>openai_chat_with_tools\<close> (lines 118 to 312).\<close>

definition openai_chat_with_tools ::
  "'w env \<Rightarrow> config \<Rightarrow> 'w \<Rightarrow> Message list \<Rightarrow> pydict \<Rightarrow> (fault + turn_result \<times> 'w) option" where
  "openai_chat_with_tools env cfg w msgs prefs0 =
     (if OPENAI_API_KEY cfg = [] then Some (offline_bot env cfg w prefs0)
      else tool_loop env cfg (initial_state env w msgs prefs0))"

text \<open>
  \<^verbatim>\<open>chat\<close> (lines 315 to 334). \<^verbatim>\<open>Message(role="assistant", content=assistant_msg)\<close>
  validates its field: a content that is no string is refused.
\<close>

definition chat ::
  "'w env \<Rightarrow> config \<Rightarrow> 'w \<Rightarrow> ChatRequest \<Rightarrow> (fault + ChatResponse \<times> 'w) option" where
  "chat env cfg w req =
     (let updated = (case req_preferences req of None \<Rightarrow> [] | Some p \<Rightarrow> p)
      in case openai_chat_with_tools env cfg w (req_messages req) updated of
           None \<Rightarrow> None
         | Some (Inl e) \<Rightarrow> Some (Inl e)
         | Some (Inr (result, w')) \<Rightarrow>
             (case assistant_message result of
                PStr assistant_msg \<Rightarrow>
                  Some (Inr (\<lparr>resp_messages =
                                 req_messages req @ [\<lparr>role = ''assistant'', content = assistant_msg\<rparr>],
                               updatedPreferences = preferences result\<rparr>, w'))
              | _ \<Rightarrow> Some (Inl ValidationError)))"

section \<open>The fetching state, in the words of the specification\<close>

text \<open>
  One topic: the retrieval adapter is called with count 5; on success the summarization
  adapter is called with the current style configuration and the section is
  \<^verbatim>\<open>"Topic: {topic}\n{summary}"\<close>; on a retrieval error the section is
  \<^verbatim>\<open>"Topic: {topic}\nExa error: {error}"\<close>.
\<close>

definition spec_topic_section ::
  "'w env \<Rightarrow> config \<Rightarrow> pydict \<Rightarrow> 'w \<Rightarrow> pyval \<Rightarrow> fault + string \<times> 'w" where
  "spec_topic_section env cfg prefs w topic =
     (case exa_news_fetch env cfg w topic (PInt 5) of
        (exa, w1) \<Rightarrow>
          (case map_of exa ''results'' of
             Some items \<Rightarrow>
               (case summarize_news env cfg w1 items (dict_get prefs ''interaction'')
                       (dict_get prefs ''format'') (dict_get prefs ''language'') (dict_get prefs ''tone'') of
                  Inl e \<Rightarrow> Inl e
                | Inr (summ, w2) \<Rightarrow>
                    Inr (''Topic: '' @ py_str env topic @ [CHR 0x0A] @ py_str env (dict_get summ ''summary''), w2))
           | None \<Rightarrow>
               Inr (''Topic: '' @ py_str env topic @ [CHR 0x0A] @ ''Exa error: '' @
                    py_str env (dict_get exa ''error''), w1)))"

text \<open>Every topic, in order.\<close>

fun spec_sections ::
  "'w env \<Rightarrow> config \<Rightarrow> pydict \<Rightarrow> 'w \<Rightarrow> pyval list \<Rightarrow> fault + string list \<times> 'w" where
  "spec_sections env cfg prefs w [] = Inr ([], w)"
| "spec_sections env cfg prefs w (topic # rest) =
     (case spec_topic_section env cfg prefs w topic of
        Inl e \<Rightarrow> Inl e
      | Inr (sec, w1) \<Rightarrow>
          (case spec_sections env cfg prefs w1 rest of
             Inl e \<Rightarrow> Inl e
           | Inr (secs, w2) \<Rightarrow> Inr (sec # secs, w2)))"

section \<open>Preferences reached by saving\<close>

text \<open>\<open>reached_by_saves p q\<close>: \<open>q\<close> is \<open>p\<close> after zero or more \<^verbatim>\<open>save_preferences\<close> updates.\<close>

inductive reached_by_saves :: "pydict \<Rightarrow> pydict \<Rightarrow> bool" where
  no_save: "reached_by_saves p p"
| one_more: "reached_by_saves p q \<Longrightarrow> save_preferences fargs q = Inr q' \<Longrightarrow> reached_by_saves p q'"

text \<open>
  What it means that a response of the model asks to save a key. \<open>requested_calls\<close> are the
  tool calls the loop reads from a response body (lines 265 to 271); \<open>call_saves_key\<close>
  holds of a call that names \<^verbatim>\<open>save_preferences\<close> and whose decoded arguments give the
  key a value that is not \<^verbatim>\<open>None\<close> (lines 272, 273, 284 and 287); only the five recognized
  keys are ever written (line 286).
\<close>

definition writes_key :: "pyval \<Rightarrow> string \<Rightarrow> bool" where
  "writes_key fargs k =
     (List.member recognized_keys k \<and> py_contains k fargs = Inr True
      \<and> (case py_getitem fargs k of Inl e \<Rightarrow> False | Inr v \<Rightarrow> v \<noteq> PNone))"

definition call_saves_key :: "'w env \<Rightarrow> pyval \<Rightarrow> string \<Rightarrow> bool" where
  "call_saves_key env tc k =
     (case py_getitem tc ''function'' of
        Inl e \<Rightarrow> False
      | Inr fn \<Rightarrow>
          (case py_getitem fn ''name'' of
             Inl e \<Rightarrow> False
           | Inr fname \<Rightarrow>
               fname = PStr ''save_preferences''
               \<and> (case py_get fn ''arguments'' (PStr ''{}'') of
                     Inl e \<Rightarrow> False
                   | Inr a \<Rightarrow> (case loads env a of Inl e \<Rightarrow> False | Inr fargs \<Rightarrow> writes_key fargs k))))"

definition requested_calls :: "'w env \<Rightarrow> string \<Rightarrow> pyval list" where
  "requested_calls env body =
     (case json_loads env body of
        None \<Rightarrow> []
      | Some data \<Rightarrow>
          (case first_message data of
             Inl e \<Rightarrow> []
           | Inr message \<Rightarrow>
               (case py_get message ''tool_calls'' PNone of
                  Inl e \<Rightarrow> []
                | Inr tool_calls \<Rightarrow>
                    if truthy tool_calls
                    then (case py_iter tool_calls of Inl e \<Rightarrow> [] | Inr tcs \<Rightarrow> tcs)
                    else [])))"

definition requests_save :: "'w env \<Rightarrow> string \<Rightarrow> string \<Rightarrow> bool" where
  "requests_save env body k = list_ex (\<lambda>tc. call_saves_key env tc k) (requested_calls env body)"

text \<open>
  \<open>response_of_turn env cfg st status body\<close>: the model answers with this status and body
  in the pass that starts from \<open>st\<close>, or in a later pass of the same turn.
\<close>

inductive response_of_turn :: "'w env \<Rightarrow> config \<Rightarrow> 'w loop_state \<Rightarrow> nat \<Rightarrow> string \<Rightarrow> bool" where
  this_pass:
    "chat_post env (st_world st) (st_messages st) = (Response status body, w') \<Longrightarrow>
     response_of_turn env cfg st status body"
| later_pass:
    "loop_iteration env cfg st = Inr st' \<Longrightarrow> response_of_turn env cfg st' status body \<Longrightarrow>
     response_of_turn env cfg st status body"

fun is_dict :: "pyval \<Rightarrow> bool" where
  "is_dict (PDict d) = True"
| "is_dict _ = False"

section \<open>A world for the examples\<close>

text \<open>
  The examples run the program in a small world: the state counts the network calls made,
  the chat endpoint answers by a script indexed by that count, and the search endpoint
  knows one topic. \<open>example_repr\<close> is \<^verbatim>\<open>str\<close> on the values the examples format,
  \<open>example_loads\<close> is \<^verbatim>\<open>json.loads\<close> on the texts they decode. The examples' world does not
  read the transcript, so the empty object stands for every serialized value.
\<close>

function show_nat :: "nat \<Rightarrow> string" where
  "show_nat n =
     (if n < 10 then [''0123456789'' ! n]
      else show_nat (n div 10) @ [''0123456789'' ! (n mod 10)])"
  by pat_completeness auto
termination
  by (relation "measure id") auto

definition quoted :: "string \<Rightarrow> string" where
  "quoted s = [CHR 0x27] @ s @ [CHR 0x27]"

definition example_repr :: "pyval \<Rightarrow> string" where
  "example_repr v =
     (case v of
        PNone \<Rightarrow> ''None''
      | PBool b \<Rightarrow> (if b then ''True'' else ''False'')
      | PInt n \<Rightarrow> (if n < 0 then ''-'' @ show_nat (nat (- n)) else show_nat (nat n))
      | PStr s \<Rightarrow> quoted s
      | PDict d \<Rightarrow>
          ''{'' @ join_str '', ''
                   (map (\<lambda>kv. quoted (fst kv) @ '': '' @
                          (case snd kv of PStr s \<Rightarrow> quoted s | _ \<Rightarrow> ''...'')) d) @ ''}''
      | _ \<Rightarrow> ''...'')"

definition body_tool_calls :: string where
  \<open>body_tool_calls =
     ''{"id": "chatcmpl-1", "choices": [{"index": 0, "message": {"role": "assistant", '' @
     ''"content": "Saving your preferences.", "tool_calls": ['' @
     ''{"id": "call_1", "type": "function", "function": {"name": "save_preferences", "arguments": "{'' @
       [CHR 0x5C] @ ''"tone'' @ [CHR 0x5C] @ ''": '' @ [CHR 0x5C] @ ''"formal'' @ [CHR 0x5C] @ ''"}"}}, '' @
     ''{"id": "call_2", "type": "function", "function": {"name": "save_preferences", "arguments": "{'' @
       [CHR 0x5C] @ ''"topics'' @ [CHR 0x5C] @ ''": '' @ [CHR 0x5C] @ ''"tech,sports'' @ [CHR 0x5C] @ ''"}"}}'' @
     '']}, "finish_reason": "tool_calls"}]}''\<close>

text \<open>The decoded form of \<open>body_tool_calls\<close>, piece by piece, and a third call used alone.\<close>

definition example_call_tone :: pydict where
  \<open>example_call_tone =
     [(''id'', PStr ''call_1''), (''type'', PStr ''function''),
      (''function'', PDict [(''name'', PStr ''save_preferences''),
                            (''arguments'', PStr ''{"tone": "formal"}'')])]\<close>

definition example_call_topics :: pydict where
  \<open>example_call_topics =
     [(''id'', PStr ''call_2''), (''type'', PStr ''function''),
      (''function'', PDict [(''name'', PStr ''save_preferences''),
                            (''arguments'', PStr ''{"topics": "tech,sports"}'')])]\<close>

definition example_call_summarize :: pydict where
  \<open>example_call_summarize =
     [(''id'', PStr ''call_3''), (''type'', PStr ''function''),
      (''function'', PDict [(''name'', PStr ''summarize_news''),
                            (''arguments'', PStr ''{"items": [{"title": "A", "summary": "B"}]}'')])]\<close>

definition example_message :: pydict where
  "example_message =
     [(''role'', PStr ''assistant''), (''content'', PStr ''Saving your preferences.''),
      (''tool_calls'', PList [PDict example_call_tone, PDict example_call_topics])]"

definition example_choice :: pydict where
  "example_choice =
     [(''index'', PInt 0), (''message'', PDict example_message), (''finish_reason'', PStr ''tool_calls'')]"

definition example_data :: pydict where
  "example_data = [(''id'', PStr ''chatcmpl-1''), (''choices'', PList [PDict example_choice])]"

definition body_final :: string where
  \<open>body_final = ''{"choices": [{"message": {"content": "Saved."}}]}''\<close>

definition body_error :: string where
  \<open>body_error = ''{"error": "overloaded"}''\<close>

definition example_loads :: "string \<Rightarrow> pyval option" where
  \<open>example_loads s =
     (if s = ''{"tone": "formal"}'' then Some (PDict [(''tone'', PStr ''formal'')])
      else if s = ''{"topics": "tech,sports"}'' then Some (PDict [(''topics'', PStr ''tech,sports'')])
      else if s = ''{"items": [{"title": "A", "summary": "B"}]}'' then
        Some (PDict [(''items'', PList [PDict [(''title'', PStr ''A''), (''summary'', PStr ''B'')]])])
      else if s = body_tool_calls then Some (PDict example_data)
      else if s = body_final then
        Some (PDict [(''choices'', PList [PDict [(''message'', PDict [(''content'', PStr ''Saved.'')])]])])
      else if s = body_error then Some (PDict [(''error'', PStr ''overloaded'')])
      else None)\<close>

definition example_exa :: "nat \<Rightarrow> string \<Rightarrow> pyval \<Rightarrow> (string + pyval) \<times> nat" where
  "example_exa w query n =
     (if query = ''latest news about ai''
      then (Inr (PDict [(''results'',
                   PList [PDict [(''title'', PStr ''A''), (''url'', PStr ''https://example.org/a''),
                                 (''summary'', PStr ''B''), (''score'', PInt 1)]])]), Suc w)
      else (Inl ''503 Server Error: Service Unavailable'', Suc w))"

definition example_env :: "(nat \<Rightarrow> http_outcome) \<Rightarrow> nat env" where
  "example_env script =
     \<lparr>py_repr = example_repr,
      exc_str = (\<lambda>e. ''error''),
      json_dumps = (\<lambda>v. ''{}''),
      json_loads = example_loads,
      exa_post = example_exa,
      responses_post = (\<lambda>w prompt. (Inl ''connection refused'', Suc w)),
      chat_post = (\<lambda>w msgs. (script w, Suc w))\<rparr>"

section \<open>The preference store: properties\<close>

lemma and_then_Inl [simp]: "and_then (Inl e) f = Inl e"
  by (simp add: and_then_def)

lemma and_then_Inr [simp]: "and_then (Inr x) f = f x"
  by (simp add: and_then_def)

lemma split_on_no_sep: "c \<notin> set s \<Longrightarrow> split_on c s = [s]"
  by (induction s) auto

lemma save_key_dict:
  "save_key (PDict d) p k =
     Inr (case map_of d k of
            None \<Rightarrow> p
          | Some v \<Rightarrow>
              if v = PNone then p
              else AList.update k
                     (if k = ''topics'' then (case v of PStr s \<Rightarrow> split_topics s | _ \<Rightarrow> v) else v) p)"
  by (auto simp: save_key_def split: option.splits pyval.splits)

lemma save_keys_snoc:
  "save_keys fargs p (ks @ [k]) =
     (case save_keys fargs p ks of Inl e \<Rightarrow> Inl e | Inr q \<Rightarrow> save_key fargs q k)"
  by (induction ks arbitrary: p) (auto split: sum.splits)

lemma save_keys_dict_total: "\<exists>q. save_keys (PDict d) p ks = Inr q"
  by (induction ks arbitrary: p) (auto simp: save_key_dict)

lemma save_preferences_topics_string:
  assumes "map_of d ''topics'' = Some (PStr s)"
  shows "\<exists>q. save_preferences (PDict d) p = Inr (AList.update ''topics'' (split_topics s) q)"
proof -
  obtain q where q: "save_keys (PDict d) p [''tone'', ''format'', ''language'', ''interaction''] = Inr q"
    using save_keys_dict_total by blast
  have "save_preferences (PDict d) p =
          save_keys (PDict d) p ([''tone'', ''format'', ''language'', ''interaction''] @ [''topics''])"
    by (simp add: save_preferences_def recognized_keys_def)
  also have "\<dots> = save_key (PDict d) q ''topics''"
    by (subst save_keys_snoc) (simp only: q sum.case)
  finally have "save_preferences (PDict d) p = save_key (PDict d) q ''topics''" .
  then show ?thesis using assms by (auto simp: save_key_dict)
qed

lemma save_single_topics:
  "save_preferences (PDict [(''topics'', PStr s)]) p = Inr (AList.update ''topics'' (split_topics s) p)"
  by (simp add: save_preferences_def recognized_keys_def save_key_dict)

lemma strip_tech: "strip ''tech'' = ''tech''"
  by (simp add: strip_def is_space_def)

text \<open>
  Claim C8. Applying the update \<^verbatim>\<open>{topics: "tech, sports"}\<close> to empty preferences stores
  topics as the sequence \<^verbatim>\<open>["tech", "sports"]\<close>; for every text value, the stored sequence
  holds the comma-separated tokens, each stripped, the empty ones dropped.
\<close>
theorem topics_comma_split:
  "save_preferences (PDict [(''topics'', PStr ''tech, sports'')]) [] =
     Inr [(''topics'', PList [PStr ''tech'', PStr ''sports''])]
   \<and> save_preferences (PDict [(''topics'', PStr s)]) p =
       Inr (AList.update ''topics''
              (PList (map PStr (filter (\<lambda>t. t \<noteq> []) (map strip (split_on (CHR '','') s))))) p)"
  by (simp add: save_single_topics split_topics_def strip_def is_space_def)

text \<open>
  Claim C2, as stated, at its input: the update \<^verbatim>\<open>{topics: "tech"}\<close> stores the
  one-element sequence \<^verbatim>\<open>["tech"]\<close>, not the string. Line 288 asks whether the value is
  a string, not whether it holds a comma.
\<close>

theorem topics_single_counterexample:
  "save_preferences (PDict [(''topics'', PStr ''tech'')]) [] = Inr [(''topics'', PList [PStr ''tech''])]
   \<and> save_preferences (PDict [(''topics'', PStr ''tech'')]) [] \<noteq> Inr [(''topics'', PStr ''tech'')]"
  by (simp add: save_single_topics split_topics_def strip_def is_space_def)

text \<open>
  Claim C2, as amended: a text value without a comma is stored as a sequence of at most one
  token, never as the string itself.
\<close>

theorem topics_no_comma_wrapped:
  assumes "CHR '','' \<notin> set s"
  shows "save_preferences (PDict [(''topics'', PStr s)]) p =
           Inr (AList.update ''topics'' (PList (if strip s = [] then [] else [PStr (strip s)])) p)"
  using assms by (simp add: save_single_topics split_topics_def split_on_no_sep)

text \<open>Claim C2, as amended, at the input of the claim.\<close>

theorem topics_no_comma_wrapped_witness:
  "CHR '','' \<notin> set ''tech''
   \<and> save_preferences (PDict [(''topics'', PStr ''tech'')]) [] = Inr [(''topics'', PList [PStr ''tech''])]"
  using topics_no_comma_wrapped [of "''tech''" "[]"] by (simp add: strip_tech)

text \<open>
  Claim C9. When the arguments of \<^verbatim>\<open>save_preferences\<close> give topics as a string whose
  comma-separated tokens are all blank, the stored topics value is the empty sequence,
  which is falsy: the key counts as unset again, and the onboarding questions have one
  to ask.
\<close>
theorem blank_topics_unset:
  assumes "map_of d ''topics'' = Some (PStr s)"
      and "\<forall>t \<in> set (split_on (CHR '','') s). strip t = []"
  shows "\<exists>q. save_preferences (PDict d) p = Inr q
            \<and> map_of q ''topics'' = Some (PList [])
            \<and> \<not> truthy (dict_get q ''topics'')
            \<and> first_question q questions \<noteq> None"
proof -
  from assms(2) have "split_topics s = PList []"
    by (auto simp: split_topics_def filter_empty_conv)
  with save_preferences_topics_string [OF assms(1), of p]
  obtain q0 where q0: "save_preferences (PDict d) p = Inr (AList.update ''topics'' (PList []) q0)"
    by auto
  let ?q = "AList.update ''topics'' (PList []) q0"
  have m: "map_of ?q ''topics'' = Some (PList [])" by (simp add: update_conv')
  then have t: "\<not> truthy (dict_get ?q ''topics'')" by (simp add: dict_get_def)
  then have "first_question ?q questions \<noteq> None" by (simp add: questions_def)
  with q0 m t show ?thesis by blast
qed

text \<open>Claim C9, at an input: a set topics preference is overwritten by blank tokens.\<close>

theorem blank_topics_unset_witness:
  "truthy (dict_get [(''topics'', PList [PStr ''tech''])] ''topics'')
   \<and> save_preferences (PDict [(''topics'', PStr '' , '')]) [(''topics'', PList [PStr ''tech''])]
       = Inr [(''topics'', PList [])]
   \<and> \<not> truthy (dict_get [(''topics'', PList [])] ''topics'')"
proof -
  have a: "map_of [(''topics'', PStr '' , '')] ''topics'' = Some (PStr '' , '')" by simp
  have b: "\<forall>t \<in> set (split_on (CHR '','') '' , ''). strip t = []"
    by (simp add: strip_def is_space_def)
  from blank_topics_unset [OF a b, of "[(''topics'', PList [PStr ''tech''])]"]
  show ?thesis by (simp add: save_single_topics split_topics_def strip_def is_space_def dict_get_def)
qed

section \<open>Onboarding\<close>

lemma offline_question:
  "first_question prefs questions = Some q \<Longrightarrow> OPENAI_API_KEY cfg = [] \<Longrightarrow>
   openai_chat_with_tools env cfg w msgs prefs =
     Some (Inr (\<lparr>assistant_message = PStr q, preferences = prefs\<rparr>, w))"
  by (simp add: openai_chat_with_tools_def offline_bot_def)

text \<open>
  Claim C1. Without a reasoning-model key, whenever one of the five recognized keys is
  unset, the reply is the question of the first unset key in the order tone, format,
  language, interaction, topics, and the preferences are returned as they came. No call
  is made: the world is returned unchanged.
\<close>

theorem onboarding_first_unset:
  assumes "OPENAI_API_KEY cfg = []"
      and "\<exists>k \<in> set [''tone'', ''format'', ''language'', ''interaction'', ''topics''].
             \<not> truthy (dict_get prefs k)"
  shows "\<exists>i<5. \<not> truthy (dict_get prefs ([''tone'', ''format'', ''language'', ''interaction'', ''topics''] ! i))
           \<and> (\<forall>j<i. truthy (dict_get prefs ([''tone'', ''format'', ''language'', ''interaction'', ''topics''] ! j)))
           \<and> openai_chat_with_tools env cfg w msgs prefs =
               Some (Inr (\<lparr>assistant_message =
                             PStr ([''Preferred Tone of Voice (e.g., formal, casual, enthusiastic)?'',
                                    ''Preferred Response Format (e.g., bullet points, paragraphs)?'',
                                    ''Language Preference (e.g., English, Spanish)?'',
                                    ''Interaction Style (e.g., concise, detailed)?'',
                                    ''Preferred News Topics (e.g., technology, sports, politics)?''] ! i),
                           preferences = prefs\<rparr>, w))"
proof -
  consider
      (a) "\<not> truthy (dict_get prefs ''tone'')"
    | (b) "truthy (dict_get prefs ''tone'')" "\<not> truthy (dict_get prefs ''format'')"
    | (c) "truthy (dict_get prefs ''tone'')" "truthy (dict_get prefs ''format'')"
          "\<not> truthy (dict_get prefs ''language'')"
    | (d) "truthy (dict_get prefs ''tone'')" "truthy (dict_get prefs ''format'')"
          "truthy (dict_get prefs ''language'')" "\<not> truthy (dict_get prefs ''interaction'')"
    | (e) "truthy (dict_get prefs ''tone'')" "truthy (dict_get prefs ''format'')"
          "truthy (dict_get prefs ''language'')" "truthy (dict_get prefs ''interaction'')"
          "\<not> truthy (dict_get prefs ''topics'')"
    using assms(2) by auto
  then show ?thesis
  proof cases
    case a
    then have "first_question prefs questions = Some ''Preferred Tone of Voice (e.g., formal, casual, enthusiastic)?''"
      by (simp add: questions_def)
    from offline_question [OF this assms(1)] a show ?thesis
      by (intro exI [of _ 0]) simp
  next
    case b
    then have "first_question prefs questions = Some ''Preferred Response Format (e.g., bullet points, paragraphs)?''"
      by (simp add: questions_def)
    from offline_question [OF this assms(1)] b show ?thesis
      by (intro exI [of _ 1]) simp
  next
    case c
    then have "first_question prefs questions = Some ''Language Preference (e.g., English, Spanish)?''"
      by (simp add: questions_def)
    from offline_question [OF this assms(1)] c show ?thesis
      by (intro exI [of _ 2]) (simp add: less_Suc_eq eval_nat_numeral)
  next
    case d
    then have "first_question prefs questions = Some ''Interaction Style (e.g., concise, detailed)?''"
      by (simp add: questions_def)
    from offline_question [OF this assms(1)] d show ?thesis
      by (intro exI [of _ 3]) (simp add: less_Suc_eq eval_nat_numeral)
  next
    case e
    then have "first_question prefs questions = Some ''Preferred News Topics (e.g., technology, sports, politics)?''"
      by (simp add: questions_def)
    from offline_question [OF this assms(1)] e show ?thesis
      by (intro exI [of _ 4]) (simp add: less_Suc_eq eval_nat_numeral)
  qed
qed


text \<open>Claim C1, at an input: tone is set, format is not, and later keys are set.\<close>

theorem onboarding_first_unset_witness:
  "OPENAI_API_KEY \<lparr>OPENAI_API_KEY = [], EXA_API_KEY = ''exa-key''\<rparr> = []
   \<and> (\<exists>k \<in> set [''tone'', ''format'', ''language'', ''interaction'', ''topics''].
         \<not> truthy (dict_get [(''tone'', PStr ''formal''), (''language'', PStr ''English''), (''topics'', PStr ''ai'')] k))
   \<and> openai_chat_with_tools (example_env (\<lambda>n. Raised)) \<lparr>OPENAI_API_KEY = [], EXA_API_KEY = ''exa-key''\<rparr> 0
        [\<lparr>role = ''user'', content = ''hello''\<rparr>]
        [(''tone'', PStr ''formal''), (''language'', PStr ''English''), (''topics'', PStr ''ai'')]
      = Some (Inr (\<lparr>assistant_message = PStr ''Preferred Response Format (e.g., bullet points, paragraphs)?'',
                    preferences = [(''tone'', PStr ''formal''), (''language'', PStr ''English''), (''topics'', PStr ''ai'')]\<rparr>, 0))"
proof -
  let ?cfg = "\<lparr>OPENAI_API_KEY = [], EXA_API_KEY = ''exa-key''\<rparr>"
  let ?p = "[(''tone'', PStr ''formal''), (''language'', PStr ''English''), (''topics'', PStr ''ai'')]"
  have k: "OPENAI_API_KEY ?cfg = []" by simp
  have u: "\<exists>k \<in> set [''tone'', ''format'', ''language'', ''interaction'', ''topics'']. \<not> truthy (dict_get ?p k)"
    by (simp add: dict_get_def)
  from onboarding_first_unset [OF k u, of "example_env (\<lambda>n. Raised)" 0 "[\<lparr>role = ''user'', content = ''hello''\<rparr>]"]
  obtain i where i: "i < 5"
    "\<not> truthy (dict_get ?p ([''tone'', ''format'', ''language'', ''interaction'', ''topics''] ! i))"
    "\<forall>j<i. truthy (dict_get ?p ([''tone'', ''format'', ''language'', ''interaction'', ''topics''] ! j))"
    and r: "openai_chat_with_tools (example_env (\<lambda>n. Raised)) ?cfg 0 [\<lparr>role = ''user'', content = ''hello''\<rparr>] ?p =
       Some (Inr (\<lparr>assistant_message =
                     PStr ([''Preferred Tone of Voice (e.g., formal, casual, enthusiastic)?'',
                            ''Preferred Response Format (e.g., bullet points, paragraphs)?'',
                            ''Language Preference (e.g., English, Spanish)?'',
                            ''Interaction Style (e.g., concise, detailed)?'',
                            ''Preferred News Topics (e.g., technology, sports, politics)?''] ! i),
                   preferences = ?p\<rparr>, 0))"
    by blast
  have n1: "\<not> truthy (dict_get ?p ([''tone'', ''format'', ''language'', ''interaction'', ''topics''] ! 1))"
    by (simp add: dict_get_def)
  have t0: "truthy (dict_get ?p ([''tone'', ''format'', ''language'', ''interaction'', ''topics''] ! 0))"
    by (simp add: dict_get_def)
  from i(3) n1 have "\<not> 1 < i" by blast
  moreover from i(2) t0 have "i \<noteq> 0" by (rule_tac notI) simp
  ultimately have "i = 1" by linarith
  with r k u show ?thesis by simp
qed

section \<open>Summarization without a key\<close>

lemma show_500: "show_nat 500 = ''500''"
  by (simp add: show_nat.simps [of 500] show_nat.simps [of 50] show_nat.simps [of 5])

lemma py_str_or:
  "py_str env (py_or x (PStr s)) = (if truthy x then py_str env x else s)"
  by (simp add: py_or_def py_str_def)

lemma bullets_loop_dicts:
  "bullets_loop env (map PDict ds) acc =
     Inr (acc @ map (\<lambda>d. ''- '' @ py_str env (dict_get d ''title'') @ '': '' @
                        (if truthy (dict_get d ''summary'') then py_str env (dict_get d ''summary'')
                         else ''No summary available'')) ds)"
  by (induction ds arbitrary: acc) (simp_all add: bullet_def py_str_or)

lemma summarize_no_key:
  "OPENAI_API_KEY cfg = [] \<Longrightarrow>
   summarize_news env cfg w (PList (map PDict ds)) style format' language tone =
     Inr ([(''summary'',
            PStr (join_str [CHR 0x0A]
                   (map (\<lambda>d. ''- '' @ py_str env (dict_get d ''title'') @ '': '' @
                              (if truthy (dict_get d ''summary'') then py_str env (dict_get d ''summary'')
                               else ''No summary available'')) ds)))], w)"
  by (simp add: summarize_news_def fallback_summary_def bullets_loop_dicts)

text \<open>
  Claim C7. Without a language-model key, \<^verbatim>\<open>summarize_news\<close> on a list of dicts never
  raises: it returns, joined by newlines, one line per item, \<^verbatim>\<open>"- {title}: "\<close> followed by
  the item's summary when that is truthy and by \<^verbatim>\<open>No summary available\<close> when it is absent
  or falsy. It makes no call, and its result does not depend on the world.
\<close>

theorem summarize_fallback_pure:
  assumes "OPENAI_API_KEY cfg = []"
  shows "summarize_news env cfg w (PList (map PDict ds)) style format' language tone =
           Inr ([(''summary'',
                  PStr (join_str [CHR 0x0A]
                         (map (\<lambda>d. ''- '' @ py_str env (dict_get d ''title'') @ '': '' @
                                    (if truthy (dict_get d ''summary'')
                                     then py_str env (dict_get d ''summary'')
                                     else ''No summary available'')) ds)))], w)
         \<and> (\<forall>w2. map_sum id fst (summarize_news env cfg w2 (PList (map PDict ds)) style format' language tone)
                = map_sum id fst (summarize_news env cfg w (PList (map PDict ds)) style format' language tone))"
  using assms by (simp add: summarize_no_key)

text \<open>
  Claim C7, at the input of the specification (one item with title A and summary B), and
  at items whose summary is missing, \<^verbatim>\<open>None\<close> or empty.
\<close>

theorem summarize_fallback_pure_witness:
  "OPENAI_API_KEY \<lparr>OPENAI_API_KEY = [], EXA_API_KEY = ''exa-key''\<rparr> = []
   \<and> summarize_news (example_env (\<lambda>n. Raised)) \<lparr>OPENAI_API_KEY = [], EXA_API_KEY = ''exa-key''\<rparr> 0
       (PList [PDict [(''title'', PStr ''A''), (''summary'', PStr ''B'')]])
       (PStr ''concise'') (PStr ''bullet points'') (PStr ''English'') (PStr ''neutral'')
     = Inr ([(''summary'', PStr ''- A: B'')], 0)
   \<and> summarize_news (example_env (\<lambda>n. Raised)) \<lparr>OPENAI_API_KEY = [], EXA_API_KEY = ''exa-key''\<rparr> 0
       (PList [PDict [(''title'', PStr ''C'')],
               PDict [(''title'', PStr ''D''), (''summary'', PNone)],
               PDict [(''title'', PStr ''E''), (''summary'', PStr [])]])
       (PStr ''concise'') (PStr ''bullet points'') (PStr ''English'') (PStr ''neutral'')
     = Inr ([(''summary'',
              PStr (''- C: No summary available'' @ [CHR 0x0A] @ ''- D: No summary available'' @ [CHR 0x0A] @
                    ''- E: No summary available''))], 0)"
  using summarize_fallback_pure [of "\<lparr>OPENAI_API_KEY = [], EXA_API_KEY = ''exa-key''\<rparr>"
      "example_env (\<lambda>n. Raised)" 0 "[[(''title'', PStr ''A''), (''summary'', PStr ''B'')]]"
      "PStr ''concise''" "PStr ''bullet points''" "PStr ''English''" "PStr ''neutral''"]
    summarize_fallback_pure [of "\<lparr>OPENAI_API_KEY = [], EXA_API_KEY = ''exa-key''\<rparr>"
      "example_env (\<lambda>n. Raised)" 0
      "[[(''title'', PStr ''C'')], [(''title'', PStr ''D''), (''summary'', PNone)],
        [(''title'', PStr ''E''), (''summary'', PStr [])]]"
      "PStr ''concise''" "PStr ''bullet points''" "PStr ''English''" "PStr ''neutral''"]
  by (simp add: py_str_def dict_get_def)

section \<open>Fetching without a reasoning-model key\<close>

lemma is_dict_list: "list_all is_dict xs \<Longrightarrow> \<exists>ds. xs = map PDict ds"
proof (induction xs)
  case Nil
  then show ?case by simp
next
  case (Cons x xs)
  then obtain ds where "xs = map PDict ds" by auto
  moreover from Cons.prems obtain d where "x = PDict d" by (cases x) auto
  ultimately have "x # xs = map PDict (d # ds)" by simp
  then show ?case by (rule exI)
qed

lemma project_items_dicts:
  "project_items items acc = Inr rs \<Longrightarrow> list_all is_dict acc \<Longrightarrow> list_all is_dict rs"
proof (induction items arbitrary: acc)
  case Nil
  then show ?case by simp
next
  case (Cons item items)
  then show ?case by (cases item) (auto split: sum.splits)
qed

lemma exa_results_dicts:
  assumes "exa_news_fetch env cfg w topic n = (exa, w1)" and "map_of exa ''results'' = Some items"
  shows "\<exists>ds. items = PList (map PDict ds)"
proof -
  from assms obtain data rs where "project_results data n = Inr rs" and "items = PList rs"
    by (auto simp: exa_news_fetch_def split: if_splits prod.splits sum.splits)
  then obtain raw where "project_items raw [] = Inr rs" and "items = PList rs"
    by (auto simp: project_results_def and_then_def split: sum.splits)
  with project_items_dicts [of raw "[]" rs] is_dict_list [of rs] show ?thesis by auto
qed

lemma set_default: "truthy (dict_get p k) \<Longrightarrow> dict_get_default p k dflt = dict_get p k"
  by (auto simp: dict_get_def dict_get_default_def split: option.splits)

lemma spec_topic_section_total:
  assumes "OPENAI_API_KEY cfg = []"
  shows "\<exists>sec w1. spec_topic_section env cfg prefs w topic = Inr (sec, w1)"
proof (cases "exa_news_fetch env cfg w topic (PInt 5)")
  case (Pair exa w1)
  show ?thesis
  proof (cases "map_of exa ''results''")
    case None
    with Pair show ?thesis by (simp add: spec_topic_section_def)
  next
    case (Some items)
    with exa_results_dicts [OF Pair] obtain ds where "items = PList (map PDict ds)" by blast
    with Pair Some assms show ?thesis
      by (simp add: spec_topic_section_def summarize_no_key)
  qed
qed

lemma spec_sections_total:
  assumes "OPENAI_API_KEY cfg = []"
  shows "\<exists>secs w'. spec_sections env cfg prefs w topics = Inr (secs, w')"
proof (induction topics arbitrary: w)
  case Nil
  then show ?case by simp
next
  case (Cons topic rest)
  from spec_topic_section_total [OF assms, of env prefs w topic] obtain sec w1
    where "spec_topic_section env cfg prefs w topic = Inr (sec, w1)" by blast
  moreover from Cons obtain secs w2 where "spec_sections env cfg prefs w1 rest = Inr (secs, w2)" by blast
  ultimately show ?case by simp
qed

lemma fetch_topics_spec:
  assumes "truthy (dict_get prefs ''interaction'')" "truthy (dict_get prefs ''format'')"
          "truthy (dict_get prefs ''language'')" "truthy (dict_get prefs ''tone'')"
  shows "fetch_topics env cfg prefs w topics acc =
           (case spec_sections env cfg prefs w topics of
              Inl e \<Rightarrow> Inl e
            | Inr (secs, w') \<Rightarrow> Inr (acc @ secs, w'))"
proof (induction topics arbitrary: w acc)
  case Nil
  then show ?case by simp
next
  case (Cons topic rest)
  show ?case
    by (simp add: spec_topic_section_def set_default assms Cons
          split: prod.splits option.splits sum.splits)
qed

text \<open>
  Claim C4. Without a reasoning-model key and with all five preferences set, the reply is
  the sections of the topics, in order, joined by a blank line: the program computes what
  \<open>spec_sections\<close> describes, and no step of it raises. A topics value that is no list
  counts as the list of that one value.
\<close>

theorem fetching_sections:
  assumes "OPENAI_API_KEY cfg = []"
      and "\<forall>k \<in> set [''tone'', ''format'', ''language'', ''interaction'', ''topics'']. truthy (dict_get prefs k)"
  shows "\<exists>secs w'.
           spec_sections env cfg prefs w
             (case dict_get prefs ''topics'' of PList ts \<Rightarrow> ts | _ \<Rightarrow> [dict_get prefs ''topics'']) = Inr (secs, w')
           \<and> openai_chat_with_tools env cfg w msgs prefs =
               Some (Inr (\<lparr>assistant_message = PStr (join_str [CHR 0x0A, CHR 0x0A] secs),
                           preferences = prefs\<rparr>, w'))"
proof -
  let ?tl = "case dict_get prefs ''topics'' of PList ts \<Rightarrow> ts | _ \<Rightarrow> [dict_get prefs ''topics'']"
  from spec_sections_total [OF assms(1), of env prefs w ?tl] obtain secs w'
    where s: "spec_sections env cfg prefs w ?tl = Inr (secs, w')" by blast
  from assms(2) have q: "first_question prefs questions = None"
    by (simp add: questions_def)
  from assms(2) have "fetch_topics env cfg prefs w ?tl [] = Inr (secs, w')"
    by (simp add: fetch_topics_spec s)
  with q assms(1) have "openai_chat_with_tools env cfg w msgs prefs =
      Some (Inr (\<lparr>assistant_message = PStr (join_str [CHR 0x0A, CHR 0x0A] secs), preferences = prefs\<rparr>, w'))"
    by (simp add: openai_chat_with_tools_def offline_bot_def Let_def)
  with s show ?thesis by blast
qed

lemma example_sections:
  "spec_sections (example_env (\<lambda>n. Raised)) \<lparr>OPENAI_API_KEY = [], EXA_API_KEY = ''exa-key''\<rparr>
     [(''tone'', PStr ''formal''), (''format'', PStr ''bullet points''), (''language'', PStr ''English''),
      (''interaction'', PStr ''concise''), (''topics'', PList [PStr ''ai'', PStr ''climate''])]
     0 [PStr ''ai'', PStr ''climate'']
   = Inr ([''Topic: ai'' @ [CHR 0x0A] @ ''- A: B'',
           ''Topic: climate'' @ [CHR 0x0A] @ ''Exa error: 503 Server Error: Service Unavailable''], 2)"
  by (simp add: spec_topic_section_def exa_news_fetch_def example_env_def example_exa_def py_str_def
        project_results_def dict_get_default_def slice_upto_def summarize_news_def fallback_summary_def
        bullet_def py_or_def dict_get_def)

text \<open>
  Claim C4, at the scenario of the specification: retrieval succeeds for the first topic with
  one article and fails for the second.
\<close>

theorem fetching_sections_witness:
  "OPENAI_API_KEY \<lparr>OPENAI_API_KEY = [], EXA_API_KEY = ''exa-key''\<rparr> = []
   \<and> openai_chat_with_tools (example_env (\<lambda>n. Raised)) \<lparr>OPENAI_API_KEY = [], EXA_API_KEY = ''exa-key''\<rparr> 0
       [\<lparr>role = ''user'', content = ''news please''\<rparr>]
       [(''tone'', PStr ''formal''), (''format'', PStr ''bullet points''), (''language'', PStr ''English''),
        (''interaction'', PStr ''concise''), (''topics'', PList [PStr ''ai'', PStr ''climate''])]
     = Some (Inr (\<lparr>assistant_message =
                     PStr (''Topic: ai'' @ [CHR 0x0A] @ ''- A: B'' @ [CHR 0x0A, CHR 0x0A] @
                           ''Topic: climate'' @ [CHR 0x0A] @ ''Exa error: 503 Server Error: Service Unavailable''),
                   preferences =
                     [(''tone'', PStr ''formal''), (''format'', PStr ''bullet points''), (''language'', PStr ''English''),
                      (''interaction'', PStr ''concise''), (''topics'', PList [PStr ''ai'', PStr ''climate''])]\<rparr>, 2))"
proof -
  let ?cfg = "\<lparr>OPENAI_API_KEY = [], EXA_API_KEY = ''exa-key''\<rparr>"
  let ?p = "[(''tone'', PStr ''formal''), (''format'', PStr ''bullet points''), (''language'', PStr ''English''),
             (''interaction'', PStr ''concise''), (''topics'', PList [PStr ''ai'', PStr ''climate''])]"
  have k: "OPENAI_API_KEY ?cfg = []" by simp
  have a: "\<forall>k \<in> set [''tone'', ''format'', ''language'', ''interaction'', ''topics'']. truthy (dict_get ?p k)"
    by (simp add: dict_get_def)
  have t: "(case dict_get ?p ''topics'' of PList ts \<Rightarrow> ts | _ \<Rightarrow> [dict_get ?p ''topics'']) = [PStr ''ai'', PStr ''climate'']"
    by (simp add: dict_get_def)
  from fetching_sections [OF k a, of "example_env (\<lambda>n. Raised)" 0 "[\<lparr>role = ''user'', content = ''news please''\<rparr>]"]
  show ?thesis unfolding t example_sections by simp
qed

section \<open>The tool loop\<close>

lemma tool_loop_return: "loop_iteration env cfg st = Inl r \<Longrightarrow> tool_loop env cfg st = Some r"
  by (subst tool_loop.simps) simp

lemma tool_loop_continue:
  "loop_iteration env cfg st = Inr st' \<Longrightarrow> tool_loop env cfg st = tool_loop env cfg st'"
  by (subst tool_loop.simps) simp

lemma exec_tool_calls_append:
  "exec_tool_calls env cfg st (xs @ ys) =
     and_then (exec_tool_calls env cfg st xs) (\<lambda>st1. exec_tool_calls env cfg st1 ys)"
  by (induction xs arbitrary: st) (auto simp: and_then_def split: sum.splits)

lemma save_single_tone:
  "v \<noteq> PNone \<Longrightarrow> save_preferences (PDict [(''tone'', v)]) p = Inr (AList.update ''tone'' v p)"
  by (simp add: save_preferences_def recognized_keys_def save_key_dict)

lemma split_tech_sports: "split_topics ''tech,sports'' = PList [PStr ''tech'', PStr ''sports'']"
  by (simp add: split_topics_def strip_def is_space_def)

lemma save_call:
  assumes "map_of t ''function'' = Some (PDict f)"
      and "map_of f ''name'' = Some (PStr ''save_preferences'')"
      and "map_of f ''arguments'' = Some (PStr a)"
      and "json_loads env a = Some fargs"
      and "save_preferences fargs (st_prefs st) = Inr p'"
  shows "exec_tool_call env cfg st (PDict t) =
         Inr \<lparr>st_messages = st_messages st @
                [PDict [(''role'', PStr ''tool''),
                        (''content'', PStr (json_dumps env (PDict [(''ok'', PBool True), (''preferences'', PDict p')]))),
                        (''tool_call_id'', dict_get_default t ''id'' (PStr []))]],
              st_prefs = p', st_world = st_world st\<rparr>"
  using assms by (simp add: exec_tool_call_def loads_def dispatch_tool_def dict_get_default_def)

lemma summarize_call:
  assumes "map_of t ''function'' = Some (PDict f)"
      and "map_of f ''name'' = Some (PStr ''summarize_news'')"
      and "map_of f ''arguments'' = Some (PStr a)"
      and "json_loads env a = Some (PDict [(''items'', its)])"
  shows "exec_tool_call env cfg st (PDict t) =
         (case summarize_news env cfg (st_world st) its
                 (dict_get_default (st_prefs st) ''interaction'' (PStr ''concise''))
                 (dict_get_default (st_prefs st) ''format'' (PStr ''bullet points''))
                 (dict_get_default (st_prefs st) ''language'' (PStr ''English''))
                 (dict_get_default (st_prefs st) ''tone'' (PStr ''neutral'')) of
            Inl e \<Rightarrow> Inl e
          | Inr (r, w2) \<Rightarrow>
              Inr \<lparr>st_messages = st_messages st @
                     [PDict [(''role'', PStr ''tool''),
                             (''content'', PStr (json_dumps env (PDict r))),
                             (''tool_call_id'', dict_get_default t ''id'' (PStr []))]],
                   st_prefs = st_prefs st, st_world = w2\<rparr>)"
proof -
  let ?style = "dict_get_default (st_prefs st) ''interaction'' (PStr ''concise'')"
  let ?format = "dict_get_default (st_prefs st) ''format'' (PStr ''bullet points'')"
  let ?language = "dict_get_default (st_prefs st) ''language'' (PStr ''English'')"
  let ?tone = "dict_get_default (st_prefs st) ''tone'' (PStr ''neutral'')"
  have c: "call_summarize_news env cfg (st_world st) (st_prefs st) (PDict [(''items'', its)]) =
             (case summarize_news env cfg (st_world st) its ?style ?format ?language ?tone of
                Inl e \<Rightarrow> Inl e
              | Inr (r, w2) \<Rightarrow> Inr (PDict r, w2))"
    by (simp add: call_summarize_news_def dict_setdefault_def dict_get_def Let_def)
  show ?thesis
    using assms
    by (simp add: exec_tool_call_def loads_def dispatch_tool_def c and_then_def
          dict_get_default_def [of t] dict_get_default_def [of f]
          split: sum.splits prod.splits)
qed

lemma tool_calls_pass:
  assumes "chat_post env (st_world st) (st_messages st) = (Response status body, w')"
      and "status < 400"
      and "json_loads env body = Some (PDict d)"
      and "map_of d ''choices'' = Some (PList (PDict c # cs))"
      and "map_of c ''message'' = Some (PDict m)"
      and "map_of m ''tool_calls'' = Some (PList tcs)"
      and "tcs \<noteq> []"
  shows "loop_iteration env cfg st =
           (case exec_tool_calls env cfg (st\<lparr>st_world := w'\<rparr>) tcs of
              Inl e \<Rightarrow> Inl (Inl e)
            | Inr s \<Rightarrow>
                Inr (s\<lparr>st_messages := st_messages s @
                       [PDict [(''role'', PStr ''system''),
                               (''content'', PStr (''Updated preferences JSON: '' @
                                                   json_dumps env (PDict (st_prefs s))))]]\<rparr>))"
proof -
  from assms(2) have nok: "\<not> 400 \<le> status" by simp
  show ?thesis
    unfolding loop_iteration_def
    by (simp add: assms(1,3-7) nok first_message_def dict_get_default_def prefs_note_def
          del: exec_tool_calls.simps split: sum.splits)
qed

lemma two_saves:
  assumes f1: "map_of t1 ''function'' = Some (PDict f1)"
      and n1: "map_of f1 ''name'' = Some (PStr ''save_preferences'')"
      and g1: "map_of f1 ''arguments'' = Some (PStr a1)"
      and f2: "map_of t2 ''function'' = Some (PDict f2)"
      and n2: "map_of f2 ''name'' = Some (PStr ''save_preferences'')"
      and g2: "map_of f2 ''arguments'' = Some (PStr a2)"
      and a1: "json_loads env a1 = Some (PDict [(''tone'', PStr ''formal'')])"
      and a2: "json_loads env a2 = Some (PDict [(''topics'', PStr ''tech,sports'')])"
  shows "exec_tool_calls env cfg s [PDict t1, PDict t2] =
           Inr \<lparr>st_messages = st_messages s @
                  [PDict [(''role'', PStr ''tool''),
                          (''content'', PStr (json_dumps env (PDict [(''ok'', PBool True),
                             (''preferences'', PDict (AList.update ''tone'' (PStr ''formal'') (st_prefs s)))]))),
                          (''tool_call_id'', dict_get_default t1 ''id'' (PStr []))],
                   PDict [(''role'', PStr ''tool''),
                          (''content'', PStr (json_dumps env (PDict [(''ok'', PBool True),
                             (''preferences'', PDict (AList.update ''topics'' (PList [PStr ''tech'', PStr ''sports''])
                                                        (AList.update ''tone'' (PStr ''formal'') (st_prefs s))))]))),
                          (''tool_call_id'', dict_get_default t2 ''id'' (PStr []))]],
                st_prefs = AList.update ''topics'' (PList [PStr ''tech'', PStr ''sports''])
                             (AList.update ''tone'' (PStr ''formal'') (st_prefs s)),
                st_world = st_world s\<rparr>"
proof -
  let ?p1 = "AList.update ''tone'' (PStr ''formal'') (st_prefs s)"
  let ?p2 = "AList.update ''topics'' (PList [PStr ''tech'', PStr ''sports'']) ?p1"
  have s1: "save_preferences (PDict [(''tone'', PStr ''formal'')]) (st_prefs s) = Inr ?p1"
    by (simp add: save_single_tone)
  note c1 = save_call [OF f1 n1 g1 a1 s1, of cfg]
  let ?s1 = "\<lparr>st_messages = st_messages s @
                [PDict [(''role'', PStr ''tool''),
                        (''content'', PStr (json_dumps env (PDict [(''ok'', PBool True), (''preferences'', PDict ?p1)]))),
                        (''tool_call_id'', dict_get_default t1 ''id'' (PStr []))]],
              st_prefs = ?p1, st_world = st_world s\<rparr>"
  have s2: "save_preferences (PDict [(''topics'', PStr ''tech,sports'')]) (st_prefs ?s1) = Inr ?p2"
    by (simp add: save_single_topics split_tech_sports)
  note c2 = save_call [OF f2 n2 g2 a2 s2, of cfg]
  have "exec_tool_calls env cfg s [PDict t1, PDict t2] =
          Inr \<lparr>st_messages = st_messages ?s1 @
                 [PDict [(''role'', PStr ''tool''),
                         (''content'', PStr (json_dumps env (PDict [(''ok'', PBool True), (''preferences'', PDict ?p2)]))),
                         (''tool_call_id'', dict_get_default t2 ''id'' (PStr []))]],
               st_prefs = ?p2, st_world = st_world ?s1\<rparr>"
    by (simp only: exec_tool_calls.simps c1 c2 sum.case)
  then show ?thesis by simp
qed

lemma save_then_summarize:
  assumes f1: "map_of t1 ''function'' = Some (PDict f1)"
      and n1: "map_of f1 ''name'' = Some (PStr ''save_preferences'')"
      and g1: "map_of f1 ''arguments'' = Some (PStr a1)"
      and a1: "json_loads env a1 = Some (PDict [(''tone'', PStr ''formal'')])"
      and f3: "map_of t3 ''function'' = Some (PDict f3)"
      and n3: "map_of f3 ''name'' = Some (PStr ''summarize_news'')"
      and g3: "map_of f3 ''arguments'' = Some (PStr a3)"
      and a3: "json_loads env a3 = Some (PDict [(''items'', its)])"
  shows "exec_tool_calls env cfg s [PDict t1, PDict t3] =
           (case summarize_news env cfg (st_world s) its
                   (dict_get_default (st_prefs s) ''interaction'' (PStr ''concise''))
                   (dict_get_default (st_prefs s) ''format'' (PStr ''bullet points''))
                   (dict_get_default (st_prefs s) ''language'' (PStr ''English''))
                   (PStr ''formal'') of
              Inl e \<Rightarrow> Inl e
            | Inr (r, w2) \<Rightarrow>
                Inr \<lparr>st_messages = st_messages s @
                       [PDict [(''role'', PStr ''tool''),
                               (''content'', PStr (json_dumps env (PDict [(''ok'', PBool True),
                                  (''preferences'', PDict (AList.update ''tone'' (PStr ''formal'') (st_prefs s)))]))),
                               (''tool_call_id'', dict_get_default t1 ''id'' (PStr []))],
                        PDict [(''role'', PStr ''tool''),
                               (''content'', PStr (json_dumps env (PDict r))),
                               (''tool_call_id'', dict_get_default t3 ''id'' (PStr []))]],
                     st_prefs = AList.update ''tone'' (PStr ''formal'') (st_prefs s),
                     st_world = w2\<rparr>)"
proof -
  let ?p1 = "AList.update ''tone'' (PStr ''formal'') (st_prefs s)"
  have s1: "save_preferences (PDict [(''tone'', PStr ''formal'')]) (st_prefs s) = Inr ?p1"
    by (simp add: save_single_tone)
  note c1 = save_call [OF f1 n1 g1 a1 s1, of cfg]
  let ?s1 = "\<lparr>st_messages = st_messages s @
                [PDict [(''role'', PStr ''tool''),
                        (''content'', PStr (json_dumps env (PDict [(''ok'', PBool True), (''preferences'', PDict ?p1)]))),
                        (''tool_call_id'', dict_get_default t1 ''id'' (PStr []))]],
              st_prefs = ?p1, st_world = st_world s\<rparr>"
  note c3 = summarize_call [OF f3 n3 g3 a3, of cfg ?s1]
  have d: "dict_get_default ?p1 ''interaction'' x = dict_get_default (st_prefs s) ''interaction'' x"
          "dict_get_default ?p1 ''format'' x = dict_get_default (st_prefs s) ''format'' x"
          "dict_get_default ?p1 ''language'' x = dict_get_default (st_prefs s) ''language'' x"
          "dict_get_default ?p1 ''tone'' x = PStr ''formal''" for x
    by (simp_all add: dict_get_default_def update_conv')
  have "exec_tool_calls env cfg s [PDict t1, PDict t3] = exec_tool_call env cfg ?s1 (PDict t3)"
    by (simp add: c1 split: sum.splits)
  also note c3
  finally show ?thesis by (simp add: d split: sum.splits prod.splits)
qed

text \<open>
  Claim C5. The tool calls of one response are executed in the order received. A response
  whose first message holds a non-empty list of tool calls never ends the turn with text:
  the pass runs the calls of the list from left to right, each from the state the one before
  it left, and then continues the loop with one system entry appended (or it raises). When
  the two calls are \<^verbatim>\<open>save_preferences(tone="formal")\<close> and then
  \<^verbatim>\<open>save_preferences(topics="tech,sports")\<close>, whatever else the response, its choices,
  its message and its calls hold, the loop goes on to another call of the model from a
  state whose preferences hold tone \<^verbatim>\<open>"formal"\<close> and topics \<^verbatim>\<open>["tech", "sports"]\<close> and whose
  transcript has grown by the two tool results and one system entry with the updated
  preferences. The order shows in the calls themselves: a \<^verbatim>\<open>summarize_news\<close> that follows
  the first save in the same batch, and names no tone, summarizes with tone
  \<^verbatim>\<open>"formal"\<close>.
\<close>

theorem tool_batch_in_order:
  assumes post: "chat_post env (st_world st) (st_messages st) = (Response status body, w')"
      and ok: "status < 400"
      and body: "json_loads env body = Some (PDict d)"
      and choices: "map_of d ''choices'' = Some (PList (PDict c # cs))"
      and message: "map_of c ''message'' = Some (PDict m)"
      and calls: "map_of m ''tool_calls'' = Some (PList [PDict t1, PDict t2])"
      and f1: "map_of t1 ''function'' = Some (PDict f1)"
      and n1: "map_of f1 ''name'' = Some (PStr ''save_preferences'')"
      and g1: "map_of f1 ''arguments'' = Some (PStr a1)"
      and f2: "map_of t2 ''function'' = Some (PDict f2)"
      and n2: "map_of f2 ''name'' = Some (PStr ''save_preferences'')"
      and g2: "map_of f2 ''arguments'' = Some (PStr a2)"
      and a1: "json_loads env a1 = Some (PDict [(''tone'', PStr ''formal'')])"
      and a2: "json_loads env a2 = Some (PDict [(''topics'', PStr ''tech,sports'')])"
  shows "(\<exists>st'. loop_iteration env cfg st = Inr st'
            \<and> tool_loop env cfg st = tool_loop env cfg st'
            \<and> st_world st' = w'
            \<and> map_of (st_prefs st') ''tone'' = Some (PStr ''formal'')
            \<and> map_of (st_prefs st') ''topics'' = Some (PList [PStr ''tech'', PStr ''sports''])
            \<and> st_prefs st' = AList.update ''topics'' (PList [PStr ''tech'', PStr ''sports''])
                               (AList.update ''tone'' (PStr ''formal'') (st_prefs st))
            \<and> st_messages st' = st_messages st @
                 [PDict [(''role'', PStr ''tool''),
                         (''content'', PStr (json_dumps env (PDict [(''ok'', PBool True),
                            (''preferences'', PDict (AList.update ''tone'' (PStr ''formal'') (st_prefs st)))]))),
                         (''tool_call_id'', dict_get_default t1 ''id'' (PStr []))],
                  PDict [(''role'', PStr ''tool''),
                         (''content'', PStr (json_dumps env (PDict [(''ok'', PBool True),
                            (''preferences'', PDict (st_prefs st'))]))),
                         (''tool_call_id'', dict_get_default t2 ''id'' (PStr []))],
                  PDict [(''role'', PStr ''system''),
                         (''content'', PStr (''Updated preferences JSON: '' @ json_dumps env (PDict (st_prefs st'))))]])
         \<and> (\<forall>sa statusa bodya wa da ca csa ma tcs.
               chat_post env (st_world sa) (st_messages sa) = (Response statusa bodya, wa) \<longrightarrow>
               statusa < 400 \<longrightarrow>
               json_loads env bodya = Some (PDict da) \<longrightarrow>
               map_of da ''choices'' = Some (PList (PDict ca # csa)) \<longrightarrow>
               map_of ca ''message'' = Some (PDict ma) \<longrightarrow>
               map_of ma ''tool_calls'' = Some (PList tcs) \<longrightarrow>
               tcs \<noteq> [] \<longrightarrow>
               loop_iteration env cfg sa =
                 (case exec_tool_calls env cfg (sa\<lparr>st_world := wa\<rparr>) tcs of
                    Inl e \<Rightarrow> Inl (Inl e)
                  | Inr s \<Rightarrow>
                      Inr (s\<lparr>st_messages := st_messages s @
                             [PDict [(''role'', PStr ''system''),
                                     (''content'', PStr (''Updated preferences JSON: '' @
                                                         json_dumps env (PDict (st_prefs s))))]]\<rparr>)))
         \<and> (\<forall>s x xs. exec_tool_calls env cfg s (x # xs) =
               (case exec_tool_call env cfg s x of
                  Inl e \<Rightarrow> Inl e
                | Inr s1 \<Rightarrow> exec_tool_calls env cfg s1 xs))
         \<and> (\<forall>s xs ys. exec_tool_calls env cfg s (xs @ ys) =
               (case exec_tool_calls env cfg s xs of
                  Inl e \<Rightarrow> Inl e
                | Inr s1 \<Rightarrow> exec_tool_calls env cfg s1 ys))
         \<and> (\<forall>s t3 f3 a3 its.
               map_of t3 ''function'' = Some (PDict f3) \<longrightarrow>
               map_of f3 ''name'' = Some (PStr ''summarize_news'') \<longrightarrow>
               map_of f3 ''arguments'' = Some (PStr a3) \<longrightarrow>
               json_loads env a3 = Some (PDict [(''items'', its)]) \<longrightarrow>
               exec_tool_calls env cfg s [PDict t1, PDict t3] =
                 (case summarize_news env cfg (st_world s) its
                         (dict_get_default (st_prefs s) ''interaction'' (PStr ''concise''))
                         (dict_get_default (st_prefs s) ''format'' (PStr ''bullet points''))
                         (dict_get_default (st_prefs s) ''language'' (PStr ''English''))
                         (PStr ''formal'') of
                    Inl e \<Rightarrow> Inl e
                  | Inr (r, w2) \<Rightarrow>
                      Inr \<lparr>st_messages = st_messages s @
                             [PDict [(''role'', PStr ''tool''),
                                     (''content'', PStr (json_dumps env (PDict [(''ok'', PBool True),
                                        (''preferences'', PDict (AList.update ''tone'' (PStr ''formal'') (st_prefs s)))]))),
                                     (''tool_call_id'', dict_get_default t1 ''id'' (PStr []))],
                              PDict [(''role'', PStr ''tool''),
                                     (''content'', PStr (json_dumps env (PDict r))),
                                     (''tool_call_id'', dict_get_default t3 ''id'' (PStr []))]],
                           st_prefs = AList.update ''tone'' (PStr ''formal'') (st_prefs s),
                           st_world = w2\<rparr>))"
proof -
  have ne: "[PDict t1, PDict t2] \<noteq> []" by simp
  note pass = tool_calls_pass [OF post ok body choices message calls ne, of cfg]
  note two = two_saves [OF f1 n1 g1 f2 n2 g2 a1 a2, of cfg "st\<lparr>st_world := w'\<rparr>"]
  have it: "loop_iteration env cfg st =
      Inr \<lparr>st_messages = st_messages st @
             [PDict [(''role'', PStr ''tool''),
                     (''content'', PStr (json_dumps env (PDict [(''ok'', PBool True),
                        (''preferences'', PDict (AList.update ''tone'' (PStr ''formal'') (st_prefs st)))]))),
                     (''tool_call_id'', dict_get_default t1 ''id'' (PStr []))],
              PDict [(''role'', PStr ''tool''),
                     (''content'', PStr (json_dumps env (PDict [(''ok'', PBool True),
                        (''preferences'', PDict (AList.update ''topics'' (PList [PStr ''tech'', PStr ''sports''])
                                                   (AList.update ''tone'' (PStr ''formal'') (st_prefs st))))]))),
                     (''tool_call_id'', dict_get_default t2 ''id'' (PStr []))],
              PDict [(''role'', PStr ''system''),
                     (''content'', PStr (''Updated preferences JSON: '' @
                        json_dumps env (PDict (AList.update ''topics'' (PList [PStr ''tech'', PStr ''sports''])
                                                 (AList.update ''tone'' (PStr ''formal'') (st_prefs st))))))]],
           st_prefs = AList.update ''topics'' (PList [PStr ''tech'', PStr ''sports''])
                        (AList.update ''tone'' (PStr ''formal'') (st_prefs st)),
           st_world = w'\<rparr>"
    unfolding pass two by simp
  have A: "\<exists>st'. loop_iteration env cfg st = Inr st'
            \<and> tool_loop env cfg st = tool_loop env cfg st'
            \<and> st_world st' = w'
            \<and> map_of (st_prefs st') ''tone'' = Some (PStr ''formal'')
            \<and> map_of (st_prefs st') ''topics'' = Some (PList [PStr ''tech'', PStr ''sports''])
            \<and> st_prefs st' = AList.update ''topics'' (PList [PStr ''tech'', PStr ''sports''])
                               (AList.update ''tone'' (PStr ''formal'') (st_prefs st))
            \<and> st_messages st' = st_messages st @
                 [PDict [(''role'', PStr ''tool''),
                         (''content'', PStr (json_dumps env (PDict [(''ok'', PBool True),
                            (''preferences'', PDict (AList.update ''tone'' (PStr ''formal'') (st_prefs st)))]))),
                         (''tool_call_id'', dict_get_default t1 ''id'' (PStr []))],
                  PDict [(''role'', PStr ''tool''),
                         (''content'', PStr (json_dumps env (PDict [(''ok'', PBool True),
                            (''preferences'', PDict (st_prefs st'))]))),
                         (''tool_call_id'', dict_get_default t2 ''id'' (PStr []))],
                  PDict [(''role'', PStr ''system''),
                         (''content'', PStr (''Updated preferences JSON: '' @ json_dumps env (PDict (st_prefs st'))))]]"
    using tool_loop_continue [OF it] it by (simp add: update_conv')
  have B: "\<forall>sa statusa bodya wa da ca csa ma tcs.
               chat_post env (st_world sa) (st_messages sa) = (Response statusa bodya, wa) \<longrightarrow>
               statusa < 400 \<longrightarrow>
               json_loads env bodya = Some (PDict da) \<longrightarrow>
               map_of da ''choices'' = Some (PList (PDict ca # csa)) \<longrightarrow>
               map_of ca ''message'' = Some (PDict ma) \<longrightarrow>
               map_of ma ''tool_calls'' = Some (PList tcs) \<longrightarrow>
               tcs \<noteq> [] \<longrightarrow>
               loop_iteration env cfg sa =
                 (case exec_tool_calls env cfg (sa\<lparr>st_world := wa\<rparr>) tcs of
                    Inl e \<Rightarrow> Inl (Inl e)
                  | Inr s \<Rightarrow>
                      Inr (s\<lparr>st_messages := st_messages s @
                             [PDict [(''role'', PStr ''system''),
                                     (''content'', PStr (''Updated preferences JSON: '' @
                                                         json_dumps env (PDict (st_prefs s))))]]\<rparr>))"
    by (intro allI impI) (rule tool_calls_pass, assumption+)
  have C: "\<forall>s xs ys. exec_tool_calls env cfg s (xs @ ys) =
               (case exec_tool_calls env cfg s xs of
                  Inl e \<Rightarrow> Inl e
                | Inr s1 \<Rightarrow> exec_tool_calls env cfg s1 ys)"
    by (simp add: exec_tool_calls_append and_then_def)
  have D: "\<forall>s t3 f3 a3 its.
               map_of t3 ''function'' = Some (PDict f3) \<longrightarrow>
               map_of f3 ''name'' = Some (PStr ''summarize_news'') \<longrightarrow>
               map_of f3 ''arguments'' = Some (PStr a3) \<longrightarrow>
               json_loads env a3 = Some (PDict [(''items'', its)]) \<longrightarrow>
               exec_tool_calls env cfg s [PDict t1, PDict t3] =
                 (case summarize_news env cfg (st_world s) its
                         (dict_get_default (st_prefs s) ''interaction'' (PStr ''concise''))
                         (dict_get_default (st_prefs s) ''format'' (PStr ''bullet points''))
                         (dict_get_default (st_prefs s) ''language'' (PStr ''English''))
                         (PStr ''formal'') of
                    Inl e \<Rightarrow> Inl e
                  | Inr (r, w2) \<Rightarrow>
                      Inr \<lparr>st_messages = st_messages s @
                             [PDict [(''role'', PStr ''tool''),
                                     (''content'', PStr (json_dumps env (PDict [(''ok'', PBool True),
                                        (''preferences'', PDict (AList.update ''tone'' (PStr ''formal'') (st_prefs s)))]))),
                                     (''tool_call_id'', dict_get_default t1 ''id'' (PStr []))],
                              PDict [(''role'', PStr ''tool''),
                                     (''content'', PStr (json_dumps env (PDict r))),
                                     (''tool_call_id'', dict_get_default t3 ''id'' (PStr []))]],
                           st_prefs = AList.update ''tone'' (PStr ''formal'') (st_prefs s),
                           st_world = w2\<rparr>)"
    using save_then_summarize [OF f1 n1 g1 a1] by blast
  from A B C D show ?thesis by simp
qed

lemma error_pass:
  assumes "chat_post env (st_world st) (st_messages st) = (Response status body, w')" and "400 \<le> status"
  shows "loop_iteration env cfg st =
           Inl (Inr (\<lparr>assistant_message =
                        PStr (''OpenAI error '' @ py_str env (PInt (int status)) @ '': '' @
                              py_str env (case json_loads env body of
                                            Some v \<Rightarrow> v
                                          | None \<Rightarrow> PDict [(''error'', PStr body)])),
                      preferences = st_prefs st\<rparr>, w'))"
  using assms by (simp add: loop_iteration_def Let_def)

text \<open>
  Claim C6, as amended. The loop tests \<^verbatim>\<open>resp.status_code >= 400\<close>: a status of 400 or
  more ends the turn at once with the diagnostic message (status and body) and the
  preferences accumulated so far, and nothing of that response is executed. A status
  that is not 2xx but below 400 is read as an ordinary response; the theorem
  \<open>redirect_not_diagnostic\<close> below evaluates the program at status 302.
\<close>

theorem provider_error_terminates:
  assumes "chat_post env (st_world st) (st_messages st) = (Response status body, w')" and "400 \<le> status"
  shows "tool_loop env cfg st =
           Some (Inr (\<lparr>assistant_message =
                         PStr (''OpenAI error '' @ py_str env (PInt (int status)) @ '': '' @
                               py_str env (case json_loads env body of
                                             Some v \<Rightarrow> v
                                           | None \<Rightarrow> PDict [(''error'', PStr body)])),
                       preferences = st_prefs st\<rparr>, w'))"
  using tool_loop_return [OF error_pass [OF assms]] .

lemma content_pass:
  assumes "chat_post env (st_world st) (st_messages st) = (Response status body, w')" and "status < 400"
      and "json_loads env body = Some (PDict [(''choices'', PList [PDict [(''message'', PDict [(''content'', c)])]])])"
  shows "loop_iteration env cfg st = Inl (Inr (\<lparr>assistant_message = c, preferences = st_prefs st\<rparr>, w'))"
  using assms by (simp add: loop_iteration_def first_message_def dict_get_default_def)

lemma loads_final: \<open>example_loads body_final =
    Some (PDict [(''choices'', PList [PDict [(''message'', PDict [(''content'', PStr ''Saved.'')])]])])\<close>
  by (simp add: example_loads_def body_final_def body_tool_calls_def)

lemma loads_error: \<open>example_loads body_error = Some (PDict [(''error'', PStr ''overloaded'')])\<close>
  by (simp add: example_loads_def body_final_def body_tool_calls_def body_error_def)

lemma loads_tool_calls: "example_loads body_tool_calls = Some (PDict example_data)"
  by (simp add: example_loads_def body_tool_calls_def)

lemma example_reads:
  "map_of example_data ''choices'' = Some (PList (PDict example_choice # []))"
  "map_of example_choice ''message'' = Some (PDict example_message)"
  "map_of example_message ''tool_calls'' = Some (PList [PDict example_call_tone, PDict example_call_topics])"
  by (simp_all add: example_data_def example_choice_def example_message_def)

lemma example_call_reads:
  \<open>map_of example_call_tone ''function'' =
     Some (PDict [(''name'', PStr ''save_preferences''), (''arguments'', PStr ''{"tone": "formal"}'')])\<close>
  \<open>map_of example_call_topics ''function'' =
     Some (PDict [(''name'', PStr ''save_preferences''), (''arguments'', PStr ''{"topics": "tech,sports"}'')])\<close>
  \<open>map_of example_call_summarize ''function'' =
     Some (PDict [(''name'', PStr ''summarize_news''),
                  (''arguments'', PStr ''{"items": [{"title": "A", "summary": "B"}]}'')])\<close>
  by (simp_all add: example_call_tone_def example_call_topics_def example_call_summarize_def)

lemma example_fn_reads:
  \<open>map_of [(''name'', PStr ''save_preferences''), (''arguments'', PStr ''{"tone": "formal"}'')] ''name'' =
     Some (PStr ''save_preferences'')\<close>
  \<open>map_of [(''name'', PStr ''save_preferences''), (''arguments'', PStr ''{"tone": "formal"}'')] ''arguments'' =
     Some (PStr ''{"tone": "formal"}'')\<close>
  \<open>map_of [(''name'', PStr ''save_preferences''), (''arguments'', PStr ''{"topics": "tech,sports"}'')] ''name'' =
     Some (PStr ''save_preferences'')\<close>
  \<open>map_of [(''name'', PStr ''save_preferences''), (''arguments'', PStr ''{"topics": "tech,sports"}'')] ''arguments'' =
     Some (PStr ''{"topics": "tech,sports"}'')\<close>
  \<open>map_of [(''name'', PStr ''summarize_news''),
           (''arguments'', PStr ''{"items": [{"title": "A", "summary": "B"}]}'')] ''name'' =
     Some (PStr ''summarize_news'')\<close>
  \<open>map_of [(''name'', PStr ''summarize_news''),
           (''arguments'', PStr ''{"items": [{"title": "A", "summary": "B"}]}'')] ''arguments'' =
     Some (PStr ''{"items": [{"title": "A", "summary": "B"}]}'')\<close>
  by simp_all

lemma loads_args:
  \<open>example_loads ''{"tone": "formal"}'' = Some (PDict [(''tone'', PStr ''formal'')])\<close>
  \<open>example_loads ''{"topics": "tech,sports"}'' = Some (PDict [(''topics'', PStr ''tech,sports'')])\<close>
  \<open>example_loads ''{"items": [{"title": "A", "summary": "B"}]}'' =
     Some (PDict [(''items'', PList [PDict [(''title'', PStr ''A''), (''summary'', PStr ''B'')]])])\<close>
  by (simp_all add: example_loads_def)

text \<open>
  Claim C6, as stated, at an input: the model endpoint answers with status 302 and a body
  that decodes; the turn ends with the text of that body, not with a diagnostic.
\<close>

theorem redirect_not_diagnostic:
  "chat_post (example_env (\<lambda>n. Response 302 body_final)) 0
      (st_messages (initial_state (example_env (\<lambda>n. Response 302 body_final)) 0
                      [\<lparr>role = ''user'', content = ''hello''\<rparr>] [])) = (Response 302 body_final, 1)
   \<and> openai_chat_with_tools (example_env (\<lambda>n. Response 302 body_final))
       \<lparr>OPENAI_API_KEY = ''sk-test'', EXA_API_KEY = ''exa-key''\<rparr> 0
       [\<lparr>role = ''user'', content = ''hello''\<rparr>] []
     = Some (Inr (\<lparr>assistant_message = PStr ''Saved.'', preferences = []\<rparr>, 1))"
proof -
  let ?env = "example_env (\<lambda>n. Response 302 body_final)"
  let ?st = "initial_state ?env 0 [\<lparr>role = ''user'', content = ''hello''\<rparr>] []"
  have p: "chat_post ?env (st_world ?st) (st_messages ?st) = (Response 302 body_final, 1)"
    by (simp add: example_env_def initial_state_def)
  have l: "json_loads ?env body_final =
             Some (PDict [(''choices'', PList [PDict [(''message'', PDict [(''content'', PStr ''Saved.'')])]])])"
    by (simp add: example_env_def loads_final)
  have "loop_iteration ?env \<lparr>OPENAI_API_KEY = ''sk-test'', EXA_API_KEY = ''exa-key''\<rparr> ?st =
          Inl (Inr (\<lparr>assistant_message = PStr ''Saved.'', preferences = st_prefs ?st\<rparr>, 1))"
    by (rule content_pass [OF p _ l]) simp
  from tool_loop_return [OF this] p show ?thesis
    by (simp add: openai_chat_with_tools_def initial_state_def)
qed

text \<open>Claim C6, as amended, at an input: status 500.\<close>

theorem provider_error_terminates_witness:
  "chat_post (example_env (\<lambda>n. Response 500 body_error)) 0
      (st_messages (initial_state (example_env (\<lambda>n. Response 500 body_error)) 0
                      [\<lparr>role = ''user'', content = ''hello''\<rparr>] [(''tone'', PStr ''formal'')]))
     = (Response 500 body_error, 1)
   \<and> (400::nat) \<le> 500
   \<and> openai_chat_with_tools (example_env (\<lambda>n. Response 500 body_error))
       \<lparr>OPENAI_API_KEY = ''sk-test'', EXA_API_KEY = ''exa-key''\<rparr> 0
       [\<lparr>role = ''user'', content = ''hello''\<rparr>] [(''tone'', PStr ''formal'')]
     = Some (Inr (\<lparr>assistant_message = PStr (''OpenAI error 500: {'' @ [CHR 0x27] @ ''error'' @ [CHR 0x27] @ '': '' @
                                             [CHR 0x27] @ ''overloaded'' @ [CHR 0x27] @ ''}''),
                   preferences = [(''tone'', PStr ''formal'')]\<rparr>, 1))"
proof -
  let ?env = "example_env (\<lambda>n. Response 500 body_error)"
  let ?st = "initial_state ?env 0 [\<lparr>role = ''user'', content = ''hello''\<rparr>] [(''tone'', PStr ''formal'')]"
  have p: "chat_post ?env (st_world ?st) (st_messages ?st) = (Response 500 body_error, 1)"
    by (simp add: example_env_def initial_state_def)
  have s: "(400::nat) \<le> 500" by simp
  have l: "json_loads ?env body_error = Some (PDict [(''error'', PStr ''overloaded'')])"
    by (simp add: example_env_def loads_error)
  have r: "py_repr ?env = example_repr" by (simp add: example_env_def)
  from provider_error_terminates [OF p s, of "\<lparr>OPENAI_API_KEY = ''sk-test'', EXA_API_KEY = ''exa-key''\<rparr>"] p
  show ?thesis
    by (simp add: openai_chat_with_tools_def l py_str_def r example_repr_def show_500 quoted_def)
       (simp add: initial_state_def)
qed

text \<open>
  Claim C3, at a failing input: with a reasoning-model key configured, a call to the
  model that raises (a timeout, a refused connection) is caught nowhere, and the turn ends
  with the exception instead of a response.
\<close>

theorem chat_transport_fault:
  "chat (example_env (\<lambda>n. Raised)) \<lparr>OPENAI_API_KEY = ''sk-test'', EXA_API_KEY = ''exa-key''\<rparr> 0
     \<lparr>req_messages = [\<lparr>role = ''user'', content = ''hello''\<rparr>], req_preferences = None\<rparr>
   = Some (Inl TransportError)"
proof -
  let ?env = "example_env (\<lambda>n. Raised)"
  have "loop_iteration ?env \<lparr>OPENAI_API_KEY = ''sk-test'', EXA_API_KEY = ''exa-key''\<rparr>
          (initial_state ?env 0 [\<lparr>role = ''user'', content = ''hello''\<rparr>] []) = Inl (Inl TransportError)"
    by (simp add: loop_iteration_def example_env_def initial_state_def)
  from tool_loop_return [OF this] show ?thesis
    by (simp add: chat_def openai_chat_with_tools_def)
qed

text \<open>
  Claim C5, at an input: a response with an id, a choice with an index and a finish reason,
  a message with a role, a text content and two tool calls with a type each. The two saves
  are made, the model is called again, and its text ends the turn. The first save followed
  by a \<^verbatim>\<open>summarize_news\<close> call reaches the summarization endpoint (the world counts one
  call) with the tone just saved.
\<close>

theorem tool_batch_in_order_witness:
  "openai_chat_with_tools
      (example_env (\<lambda>n. if n = 0 then Response 200 body_tool_calls else Response 200 body_final))
      \<lparr>OPENAI_API_KEY = ''sk-test'', EXA_API_KEY = ''exa-key''\<rparr> 0
      [\<lparr>role = ''user'', content = ''formal tone; tech and sports''\<rparr>] []
    = Some (Inr (\<lparr>assistant_message = PStr ''Saved.'',
                  preferences = [(''tone'', PStr ''formal''), (''topics'', PList [PStr ''tech'', PStr ''sports''])]\<rparr>, 2))
   \<and> exec_tool_calls
        (example_env (\<lambda>n. if n = 0 then Response 200 body_tool_calls else Response 200 body_final))
        \<lparr>OPENAI_API_KEY = ''sk-test'', EXA_API_KEY = ''exa-key''\<rparr>
        \<lparr>st_messages = [], st_prefs = [(''tone'', PStr ''casual'')], st_world = 0\<rparr>
        [PDict example_call_tone, PDict example_call_summarize]
      = Inr \<lparr>st_messages =
               [PDict [(''role'', PStr ''tool''), (''content'', PStr ''{}''), (''tool_call_id'', PStr ''call_1'')],
                PDict [(''role'', PStr ''tool''), (''content'', PStr ''{}''), (''tool_call_id'', PStr ''call_3'')]],
             st_prefs = [(''tone'', PStr ''formal'')], st_world = 1\<rparr>
   \<and> summarize_news
        (example_env (\<lambda>n. if n = 0 then Response 200 body_tool_calls else Response 200 body_final))
        \<lparr>OPENAI_API_KEY = ''sk-test'', EXA_API_KEY = ''exa-key''\<rparr> 0
        (PList [PDict [(''title'', PStr ''A''), (''summary'', PStr ''B'')]])
        (PStr ''concise'') (PStr ''bullet points'') (PStr ''English'') (PStr ''formal'')
      = Inr ([(''summary'', PStr ''- A: B''), (''warning'', PStr ''connection refused'')], 1)"
proof -
  let ?env = "example_env (\<lambda>n. if n = 0 then Response 200 body_tool_calls else Response 200 body_final)"
  let ?cfg = "\<lparr>OPENAI_API_KEY = ''sk-test'', EXA_API_KEY = ''exa-key''\<rparr>"
  let ?st = "initial_state ?env 0 [\<lparr>role = ''user'', content = ''formal tone; tech and sports''\<rparr>] []"
  let ?s = "\<lparr>st_messages = [], st_prefs = [(''tone'', PStr ''casual'')], st_world = 0::nat\<rparr>"
  have post: "chat_post ?env (st_world ?st) (st_messages ?st) = (Response 200 body_tool_calls, 1)"
    by (simp add: example_env_def initial_state_def)
  have ok: "(200::nat) < 400" by simp
  have j: "json_loads ?env = example_loads" by (simp add: example_env_def)
  note T = tool_batch_in_order [OF post ok loads_tool_calls [folded j] example_reads
      example_call_reads(1) example_fn_reads(1,2) example_call_reads(2) example_fn_reads(3,4)
      loads_args(1) [folded j] loads_args(2) [folded j], of ?cfg]
  from T [THEN conjunct1] obtain st' where st': "tool_loop ?env ?cfg ?st = tool_loop ?env ?cfg st'" "st_world st' = 1"
      "st_prefs st' = AList.update ''topics'' (PList [PStr ''tech'', PStr ''sports''])
                        (AList.update ''tone'' (PStr ''formal'') (st_prefs ?st))"
    by blast
  have p2: "chat_post ?env (st_world st') (st_messages st') = (Response 200 body_final, 2)"
    by (simp add: example_env_def st'(2))
  have "loop_iteration ?env ?cfg st' =
          Inl (Inr (\<lparr>assistant_message = PStr ''Saved.'', preferences = st_prefs st'\<rparr>, 2))"
    by (rule content_pass [OF p2 ok]) (simp add: j loads_final)
  from tool_loop_return [OF this] st'
  have first: "openai_chat_with_tools ?env ?cfg 0
      [\<lparr>role = ''user'', content = ''formal tone; tech and sports''\<rparr>] []
    = Some (Inr (\<lparr>assistant_message = PStr ''Saved.'',
                  preferences = [(''tone'', PStr ''formal''), (''topics'', PList [PStr ''tech'', PStr ''sports''])]\<rparr>, 2))"
    by (simp add: openai_chat_with_tools_def initial_state_def)
  have summ: "summarize_news ?env ?cfg 0
        (PList [PDict [(''title'', PStr ''A''), (''summary'', PStr ''B'')]])
        (PStr ''concise'') (PStr ''bullet points'') (PStr ''English'') (PStr ''formal'')
      = Inr ([(''summary'', PStr ''- A: B''), (''warning'', PStr ''connection refused'')], 1)"
    by (simp add: summarize_news_def example_env_def fallback_summary_def bullet_def py_str_def
          py_or_def dict_get_def)
  note D = T [THEN conjunct2, THEN conjunct2, THEN conjunct2, THEN conjunct2]
  from D [rule_format, OF example_call_reads(3) example_fn_reads(5,6) loads_args(3) [folded j], of ?s]
  have second: "exec_tool_calls ?env ?cfg ?s [PDict example_call_tone, PDict example_call_summarize]
      = Inr \<lparr>st_messages =
               [PDict [(''role'', PStr ''tool''), (''content'', PStr ''{}''), (''tool_call_id'', PStr ''call_1'')],
                PDict [(''role'', PStr ''tool''), (''content'', PStr ''{}''), (''tool_call_id'', PStr ''call_3'')]],
             st_prefs = [(''tone'', PStr ''formal'')], st_world = 1\<rparr>"
    by (simp add: dict_get_default_def summ)
       (simp add: example_env_def example_call_tone_def example_call_summarize_def)
  from first second summ show ?thesis by simp
qed

section \<open>Keys are never deleted\<close>

lemma save_key_shape: "save_key fargs p k = Inr q \<Longrightarrow> q = p \<or> (\<exists>v. q = AList.update k v p)"
  by (auto simp: save_key_def split: sum.splits bool.splits if_splits pyval.splits)

lemma save_keys_keeps:
  "save_keys fargs p ks = Inr q \<Longrightarrow> map_of p k = Some v \<Longrightarrow>
   (\<exists>v'. map_of q k = Some v') \<and> (k \<notin> set ks \<longrightarrow> map_of q k = Some v)"
proof (induction ks arbitrary: p v)
  case Nil
  then show ?case by simp
next
  case (Cons a ks)
  from Cons.prems(1) obtain p1 where s1: "save_key fargs p a = Inr p1"
      and s2: "save_keys fargs p1 ks = Inr q"
    by (auto split: sum.splits)
  from save_key_shape [OF s1] Cons.prems(2)
  have "\<exists>v1. map_of p1 k = Some v1 \<and> (k \<noteq> a \<longrightarrow> v1 = v)"
    by (cases "k = a") (auto simp: update_conv')
  then obtain v1 where m1: "map_of p1 k = Some v1" and e: "k \<noteq> a \<longrightarrow> v1 = v"
    by blast
  from Cons.IH [OF s2 m1] e show ?case by auto
qed

lemma reached_keeps:
  "reached_by_saves p q \<Longrightarrow> map_of p k = Some v \<Longrightarrow>
   (\<exists>v'. map_of q k = Some v') \<and> (k \<notin> set recognized_keys \<longrightarrow> map_of q k = Some v)"
proof (induction rule: reached_by_saves.induct)
  case (no_save p)
  then show ?case by simp
next
  case (one_more p q fargs q')
  then obtain v' where m: "map_of q k = Some v'" and e: "k \<notin> set recognized_keys \<longrightarrow> v' = v"
    by auto
  from one_more.hyps(2) have "save_keys fargs q recognized_keys = Inr q'"
    by (simp add: save_preferences_def)
  from save_keys_keeps [OF this m] e show ?case by auto
qed

lemma dispatch_tool_prefs:
  "dispatch_tool env cfg w prefs fname fargs = Inr (result, prefs', w') \<Longrightarrow>
   prefs' = prefs \<or> save_preferences fargs prefs = Inr prefs'"
  by (auto simp: dispatch_tool_def and_then_def split: if_splits sum.splits prod.splits)

lemma exec_tool_call_prefs:
  assumes "exec_tool_call env cfg st tc = Inr st'" and "reached_by_saves p (st_prefs st)"
  shows "reached_by_saves p (st_prefs st')"
proof -
  from assms(1) obtain fname fargs result prefs' w'
    where d: "dispatch_tool env cfg (st_world st) (st_prefs st) fname fargs = Inr (result, prefs', w')"
      and e: "st_prefs st' = prefs'"
    by (auto simp: exec_tool_call_def and_then_def split: sum.splits prod.splits)
  from dispatch_tool_prefs [OF d] e assms(2) show ?thesis
    by (auto intro: reached_by_saves.one_more)
qed

lemma exec_tool_calls_prefs:
  "exec_tool_calls env cfg st tcs = Inr st' \<Longrightarrow> reached_by_saves p (st_prefs st) \<Longrightarrow>
   reached_by_saves p (st_prefs st')"
proof (induction tcs arbitrary: st)
  case Nil
  then show ?case by simp
next
  case (Cons tc tcs)
  from Cons.prems(1) obtain st1 where a: "exec_tool_call env cfg st tc = Inr st1"
      and b: "exec_tool_calls env cfg st1 tcs = Inr st'"
    by (auto split: sum.splits)
  from Cons.IH [OF b exec_tool_call_prefs [OF a Cons.prems(2)]] show ?case .
qed

lemma loop_iteration_continue:
  assumes "loop_iteration env cfg st = Inr st'" and "reached_by_saves p (st_prefs st)"
  shows "reached_by_saves p (st_prefs st')"
proof -
  from assms(1) obtain w' tcs st1
    where a: "exec_tool_calls env cfg (st\<lparr>st_world := w'\<rparr>) tcs = Inr st1"
      and b: "st_prefs st' = st_prefs st1"
    by (auto simp: loop_iteration_def Let_def
          split: prod.splits http_outcome.splits if_splits option.splits sum.splits)
  from exec_tool_calls_prefs [OF a] assms(2) b show ?thesis by simp
qed

lemma loop_iteration_return:
  "loop_iteration env cfg st = Inl (Inr (res, w')) \<Longrightarrow> preferences res = st_prefs st"
  by (auto simp: loop_iteration_def Let_def
        split: prod.splits http_outcome.splits if_splits option.splits sum.splits)

lemma tool_loop_prefs:
  assumes "tool_loop env cfg st = Some r"
  shows "\<forall>res w'. reached_by_saves p (st_prefs st) \<longrightarrow> r = Inr (res, w') \<longrightarrow>
           reached_by_saves p (preferences res)"
proof (rule tool_loop.raw_induct
    [where P = "\<lambda>env cfg st r. \<forall>res w'. reached_by_saves p (st_prefs st) \<longrightarrow> r = Inr (res, w') \<longrightarrow>
                   reached_by_saves p (preferences res)", OF _ assms])
  fix loop e c s y
  assume IH: "\<And>e c s y. loop e c s = Some y \<Longrightarrow>
                \<forall>res w'. reached_by_saves p (st_prefs s) \<longrightarrow> y = Inr (res, w') \<longrightarrow>
                  reached_by_saves p (preferences res)"
    and body: "(case loop_iteration e c s of Inl r \<Rightarrow> Some r | Inr s' \<Rightarrow> loop e c s') = Some y"
  show "\<forall>res w'. reached_by_saves p (st_prefs s) \<longrightarrow> y = Inr (res, w') \<longrightarrow>
          reached_by_saves p (preferences res)"
  proof (cases "loop_iteration e c s")
    case (Inl out)
    with body have "y = out" by simp
    with Inl loop_iteration_return [of e c s] show ?thesis by auto
  next
    case (Inr s1)
    with body have "loop e c s1 = Some y" by simp
    from IH [OF this] loop_iteration_continue [OF Inr, of p] show ?thesis by blast
  qed
qed

lemma offline_bot_prefs: "offline_bot env cfg w p = Inr (res, w') \<Longrightarrow> preferences res = p"
  by (auto simp: offline_bot_def Let_def split: option.splits sum.splits prod.splits)

lemma save_key_keeps_key:
  "save_key fargs p k' = Inr q \<Longrightarrow> k' \<noteq> k \<or> \<not> writes_key fargs k \<Longrightarrow> List.member recognized_keys k' \<Longrightarrow>
   map_of q k = map_of p k"
  by (auto simp: save_key_def writes_key_def update_conv'
        split: sum.splits bool.splits if_splits pyval.splits)

lemma save_keys_keeps_key:
  "save_keys fargs p ks = Inr q \<Longrightarrow> \<not> writes_key fargs k \<Longrightarrow> set ks \<subseteq> set recognized_keys \<Longrightarrow>
   map_of q k = map_of p k"
proof (induction ks arbitrary: p)
  case Nil
  then show ?case by simp
next
  case (Cons a ks)
  from Cons.prems(1) obtain p1 where s1: "save_key fargs p a = Inr p1"
      and s2: "save_keys fargs p1 ks = Inr q"
    by (auto split: sum.splits)
  from Cons.prems(3) have m: "List.member recognized_keys a" and sub: "set ks \<subseteq> set recognized_keys"
    by simp_all
  from save_key_keeps_key [OF s1 _ m, of k] Cons.prems(2) have "map_of p1 k = map_of p k" by simp
  with Cons.IH [OF s2 Cons.prems(2) sub] show ?case by simp
qed

lemma save_preferences_keeps_key:
  "save_preferences fargs p = Inr q \<Longrightarrow> \<not> writes_key fargs k \<Longrightarrow> map_of q k = map_of p k"
  using save_keys_keeps_key [of fargs p recognized_keys q k] by (simp add: save_preferences_def)

lemma dispatch_tool_other:
  "dispatch_tool env cfg w prefs fname fargs = Inr (result, prefs', w') \<Longrightarrow>
   fname \<noteq> PStr ''save_preferences'' \<Longrightarrow> prefs' = prefs"
  by (auto simp: dispatch_tool_def and_then_def split: if_splits sum.splits prod.splits)

lemma dispatch_tool_save:
  "dispatch_tool env cfg w prefs (PStr ''save_preferences'') fargs = Inr (result, prefs', w') \<Longrightarrow>
   save_preferences fargs prefs = Inr prefs'"
  by (auto simp: dispatch_tool_def and_then_def split: if_splits sum.splits prod.splits)

lemma exec_tool_call_keeps_key:
  assumes "exec_tool_call env cfg st tc = Inr st'" and "\<not> call_saves_key env tc k"
  shows "map_of (st_prefs st') k = map_of (st_prefs st) k"
proof -
  from assms(1) obtain fn fname a fargs result prefs' w'
    where r: "py_getitem tc ''function'' = Inr fn" "py_getitem fn ''name'' = Inr fname"
             "py_get fn ''arguments'' (PStr ''{}'') = Inr a" "loads env a = Inr fargs"
      and d: "dispatch_tool env cfg (st_world st) (st_prefs st) fname fargs = Inr (result, prefs', w')"
      and e: "st_prefs st' = prefs'"
    by (auto simp: exec_tool_call_def and_then_def split: sum.splits prod.splits)
  show ?thesis
  proof (cases "fname = PStr ''save_preferences''")
    case True
    with assms(2) r have "\<not> writes_key fargs k" by (simp add: call_saves_key_def)
    with dispatch_tool_save [OF d [unfolded True]] e show ?thesis
      by (simp add: save_preferences_keeps_key)
  next
    case False
    from dispatch_tool_other [OF d False] e show ?thesis by simp
  qed
qed

lemma exec_tool_calls_keeps_key:
  "exec_tool_calls env cfg st tcs = Inr st' \<Longrightarrow> \<not> list_ex (\<lambda>tc. call_saves_key env tc k) tcs \<Longrightarrow>
   map_of (st_prefs st') k = map_of (st_prefs st) k"
proof (induction tcs arbitrary: st)
  case Nil
  then show ?case by simp
next
  case (Cons tc tcs)
  from Cons.prems(1) obtain st1 where a: "exec_tool_call env cfg st tc = Inr st1"
      and b: "exec_tool_calls env cfg st1 tcs = Inr st'"
    by (auto split: sum.splits)
  from Cons.prems(2) have n1: "\<not> call_saves_key env tc k"
      and n2: "\<not> list_ex (\<lambda>tc. call_saves_key env tc k) tcs"
    by simp_all
  from Cons.IH [OF b n2] exec_tool_call_keeps_key [OF a n1] show ?case by simp
qed

lemma continue_reads:
  assumes "loop_iteration env cfg st = Inr st1"
  shows "\<exists>status body w' st2.
           chat_post env (st_world st) (st_messages st) = (Response status body, w')
           \<and> status < 400
           \<and> exec_tool_calls env cfg (st\<lparr>st_world := w'\<rparr>) (requested_calls env body) = Inr st2
           \<and> st_prefs st1 = st_prefs st2"
proof -
  obtain out w' where p: "chat_post env (st_world st) (st_messages st) = (out, w')"
    by (cases "chat_post env (st_world st) (st_messages st)") auto
  with assms obtain status body where o: "out = Response status body" and s: "\<not> 400 \<le> status"
    by (cases out) (auto simp: loop_iteration_def Let_def split: if_splits)
  from assms p o s obtain data message tool_calls tcs st2
    where r: "json_loads env body = Some data" "first_message data = Inr message"
             "py_get message ''tool_calls'' PNone = Inr tool_calls" "truthy tool_calls"
             "py_iter tool_calls = Inr tcs"
      and x: "exec_tool_calls env cfg (st\<lparr>st_world := w'\<rparr>) tcs = Inr st2"
      and e: "st_prefs st1 = st_prefs st2"
    by (auto simp: loop_iteration_def split: option.splits sum.splits if_splits)
  from r have "requested_calls env body = tcs" by (simp add: requested_calls_def)
  with p o s x e show ?thesis by auto
qed

lemma tool_loop_keeps_key:
  assumes "tool_loop env cfg st = Some r"
  shows "\<forall>res w'. r = Inr (res, w') \<longrightarrow>
           (\<forall>status body. response_of_turn env cfg st status body \<longrightarrow> status < 400 \<longrightarrow>
              \<not> requests_save env body k) \<longrightarrow>
           map_of (preferences res) k = map_of (st_prefs st) k"
proof (rule tool_loop.raw_induct
    [where P = "\<lambda>env cfg st r. \<forall>res w'. r = Inr (res, w') \<longrightarrow>
                   (\<forall>status body. response_of_turn env cfg st status body \<longrightarrow> status < 400 \<longrightarrow>
                      \<not> requests_save env body k) \<longrightarrow>
                   map_of (preferences res) k = map_of (st_prefs st) k", OF _ assms])
  fix loop e c s y
  assume IH: "\<And>e c s y. loop e c s = Some y \<Longrightarrow>
                \<forall>res w'. y = Inr (res, w') \<longrightarrow>
                  (\<forall>status body. response_of_turn e c s status body \<longrightarrow> status < 400 \<longrightarrow>
                     \<not> requests_save e body k) \<longrightarrow>
                  map_of (preferences res) k = map_of (st_prefs s) k"
    and body: "(case loop_iteration e c s of Inl r \<Rightarrow> Some r | Inr s' \<Rightarrow> loop e c s') = Some y"
  show "\<forall>res w'. y = Inr (res, w') \<longrightarrow>
          (\<forall>status body. response_of_turn e c s status body \<longrightarrow> status < 400 \<longrightarrow>
             \<not> requests_save e body k) \<longrightarrow>
          map_of (preferences res) k = map_of (st_prefs s) k"
  proof (cases "loop_iteration e c s")
    case (Inl out)
    with body have "y = out" by simp
    with Inl loop_iteration_return [of e c s] show ?thesis by auto
  next
    case (Inr s1)
    with body have l: "loop e c s1 = Some y" by simp
    show ?thesis
    proof (intro allI impI)
      fix res w'
      assume y: "y = Inr (res, w')"
        and H: "\<forall>status body. response_of_turn e c s status body \<longrightarrow> status < 400 \<longrightarrow>
                  \<not> requests_save e body k"
      from continue_reads [OF Inr] obtain status b w1 s2
        where p: "chat_post e (st_world s) (st_messages s) = (Response status b, w1)"
          and ok: "status < 400"
          and x: "exec_tool_calls e c (s\<lparr>st_world := w1\<rparr>) (requested_calls e b) = Inr s2"
          and eq: "st_prefs s1 = st_prefs s2"
        by blast
      from response_of_turn.this_pass [OF p, of c] H ok have "\<not> requests_save e b k" by blast
      with exec_tool_calls_keeps_key [OF x, of k] eq
      have one: "map_of (st_prefs s1) k = map_of (st_prefs s) k"
        by (simp add: requests_save_def)
      have "\<forall>status body. response_of_turn e c s1 status body \<longrightarrow> status < 400 \<longrightarrow>
              \<not> requests_save e body k"
        using H response_of_turn.later_pass [OF Inr] by blast
      with IH [OF l] y have "map_of (preferences res) k = map_of (st_prefs s1) k" by blast
      with one show "map_of (preferences res) k = map_of (st_prefs s) k" by simp
    qed
  qed
qed

text \<open>
  Claim C10. Whenever a turn returns, the preferences returned are the caller's after zero
  or more \<^verbatim>\<open>save_preferences\<close> updates: every key of the caller's snapshot is still
  present, and a key outside the five recognized ones has its original value. A key, recognized
  or not, has its original value unless a response of the model during the turn asked to
  save it: when no response received in the turn holds a \<^verbatim>\<open>save_preferences\<close> call that
  gives the key a value, the key is returned as it came, whatever other tools were called.
  Without a reasoning-model key the whole snapshot is returned as it came.
\<close>

theorem keys_never_deleted:
  assumes "chat env cfg w req = Some (Inr (resp, w'))"
  shows "reached_by_saves (case req_preferences req of None \<Rightarrow> [] | Some p \<Rightarrow> p) (updatedPreferences resp)
         \<and> (\<forall>k v. map_of (case req_preferences req of None \<Rightarrow> [] | Some p \<Rightarrow> p) k = Some v \<longrightarrow>
                (\<exists>v'. map_of (updatedPreferences resp) k = Some v')
                \<and> (k \<notin> set [''tone'', ''format'', ''language'', ''interaction'', ''topics''] \<longrightarrow>
                     map_of (updatedPreferences resp) k = Some v))
         \<and> (\<forall>k. (\<forall>status body.
                    response_of_turn env cfg
                      (initial_state env w (req_messages req)
                         (case req_preferences req of None \<Rightarrow> [] | Some p \<Rightarrow> p)) status body \<longrightarrow>
                    status < 400 \<longrightarrow> \<not> requests_save env body k) \<longrightarrow>
                map_of (updatedPreferences resp) k =
                  map_of (case req_preferences req of None \<Rightarrow> [] | Some p \<Rightarrow> p) k)
         \<and> (OPENAI_API_KEY cfg = [] \<longrightarrow>
              updatedPreferences resp = (case req_preferences req of None \<Rightarrow> [] | Some p \<Rightarrow> p))"
proof -
  let ?p0 = "case req_preferences req of None \<Rightarrow> [] | Some p \<Rightarrow> p"
  from assms obtain res where o: "openai_chat_with_tools env cfg w (req_messages req) ?p0 = Some (Inr (res, w'))"
      and u: "updatedPreferences resp = preferences res"
    by (auto simp: chat_def Let_def split: option.splits sum.splits prod.splits pyval.splits)
  have a: "OPENAI_API_KEY cfg = [] \<longrightarrow> preferences res = ?p0"
    using o by (auto simp: openai_chat_with_tools_def dest: offline_bot_prefs)
  have r: "reached_by_saves ?p0 (preferences res)"
  proof (cases "OPENAI_API_KEY cfg = []")
    case True
    with a show ?thesis by (simp add: reached_by_saves.no_save)
  next
    case False
    with o have "tool_loop env cfg (initial_state env w (req_messages req) ?p0) = Some (Inr (res, w'))"
      by (simp add: openai_chat_with_tools_def)
    from tool_loop_prefs [OF this, of ?p0] show ?thesis
      by (simp add: initial_state_def reached_by_saves.no_save)
  qed
  have n: "\<forall>k. (\<forall>status body.
                    response_of_turn env cfg (initial_state env w (req_messages req) ?p0) status body \<longrightarrow>
                    status < 400 \<longrightarrow> \<not> requests_save env body k) \<longrightarrow>
                map_of (preferences res) k = map_of ?p0 k"
  proof (cases "OPENAI_API_KEY cfg = []")
    case True
    with a show ?thesis by simp
  next
    case False
    with o have t: "tool_loop env cfg (initial_state env w (req_messages req) ?p0) = Some (Inr (res, w'))"
      by (simp add: openai_chat_with_tools_def)
    have "st_prefs (initial_state env w (req_messages req) ?p0) = ?p0"
      by (simp add: initial_state_def)
    with tool_loop_keeps_key [OF t] show ?thesis by metis
  qed
  from reached_keeps [OF r] a r u n show ?thesis
    by (simp add: recognized_keys_def)
qed

lemma example_responses:
  "response_of_turn env cfg st status body \<Longrightarrow> env = example_env script \<Longrightarrow>
   \<exists>n. script n = Response status body"
  by (induction rule: response_of_turn.induct) (auto simp: example_env_def)

lemma example_requests:
  "requests_save (example_env script) body_tool_calls ''tone''"
  "requests_save (example_env script) body_tool_calls ''topics''"
  "\<not> requests_save (example_env script) body_tool_calls ''language''"
  "\<not> requests_save (example_env script) body_final ''language''"
  by (simp_all add: requests_save_def requested_calls_def call_saves_key_def writes_key_def loads_def
        example_env_def loads_tool_calls loads_final loads_args first_message_def dict_get_default_def
        example_data_def example_choice_def example_message_def example_call_tone_def
        example_call_topics_def recognized_keys_def)

text \<open>
  Claim C10, at an input: an unrecognized key, a tone and a language go in; the model asks
  to save tone and topics. The unrecognized key and the language come back as they went
  in, and the tone is the saved one.
\<close>

theorem keys_never_deleted_witness:
  "chat (example_env (\<lambda>n. if n = 0 then Response 200 body_tool_calls else Response 200 body_final))
      \<lparr>OPENAI_API_KEY = ''sk-test'', EXA_API_KEY = ''exa-key''\<rparr> 0
      \<lparr>req_messages = [\<lparr>role = ''user'', content = ''formal tone; tech and sports''\<rparr>],
       req_preferences = Some [(''theme'', PStr ''dark''), (''tone'', PStr ''casual''),
                               (''language'', PStr ''English'')]\<rparr>
    = Some (Inr (\<lparr>resp_messages = [\<lparr>role = ''user'', content = ''formal tone; tech and sports''\<rparr>,
                                  \<lparr>role = ''assistant'', content = ''Saved.''\<rparr>],
                  updatedPreferences = [(''theme'', PStr ''dark''), (''tone'', PStr ''formal''),
                                        (''language'', PStr ''English''),
                                        (''topics'', PList [PStr ''tech'', PStr ''sports''])]\<rparr>, 2))
   \<and> reached_by_saves [(''theme'', PStr ''dark''), (''tone'', PStr ''casual''), (''language'', PStr ''English'')]
        [(''theme'', PStr ''dark''), (''tone'', PStr ''formal''), (''language'', PStr ''English''),
         (''topics'', PList [PStr ''tech'', PStr ''sports''])]
   \<and> map_of [(''theme'', PStr ''dark''), (''tone'', PStr ''formal''), (''language'', PStr ''English''),
              (''topics'', PList [PStr ''tech'', PStr ''sports''])] ''theme'' = Some (PStr ''dark'')
   \<and> map_of [(''theme'', PStr ''dark''), (''tone'', PStr ''formal''), (''language'', PStr ''English''),
              (''topics'', PList [PStr ''tech'', PStr ''sports''])] ''language'' = Some (PStr ''English'')
   \<and> requests_save (example_env (\<lambda>n. if n = 0 then Response 200 body_tool_calls else Response 200 body_final))
        body_tool_calls ''tone''
   \<and> \<not> requests_save (example_env (\<lambda>n. if n = 0 then Response 200 body_tool_calls else Response 200 body_final))
        body_tool_calls ''language''
   \<and> \<not> requests_save (example_env (\<lambda>n. if n = 0 then Response 200 body_tool_calls else Response 200 body_final))
        body_final ''language''"
proof -
  let ?script = "\<lambda>n::nat. if n = 0 then Response 200 body_tool_calls else Response 200 body_final"
  let ?env = "example_env ?script"
  let ?cfg = "\<lparr>OPENAI_API_KEY = ''sk-test'', EXA_API_KEY = ''exa-key''\<rparr>"
  let ?msgs = "[\<lparr>role = ''user'', content = ''formal tone; tech and sports''\<rparr>]"
  let ?p0 = "[(''theme'', PStr ''dark''), (''tone'', PStr ''casual''), (''language'', PStr ''English'')]"
  let ?st = "initial_state ?env 0 ?msgs ?p0"
  let ?req = "\<lparr>req_messages = ?msgs, req_preferences = Some ?p0\<rparr>"
  have post: "chat_post ?env (st_world ?st) (st_messages ?st) = (Response 200 body_tool_calls, 1)"
    by (simp add: example_env_def initial_state_def)
  have ok: "(200::nat) < 400" by simp
  have ne: "[PDict example_call_tone, PDict example_call_topics] \<noteq> []" by simp
  have j: "json_loads ?env = example_loads" by (simp add: example_env_def)
  note pass = tool_calls_pass [OF post ok loads_tool_calls [folded j] example_reads ne, of ?cfg]
  note two = two_saves [OF example_call_reads(1) example_fn_reads(1,2) example_call_reads(2)
      example_fn_reads(3,4) loads_args(1) [folded j] loads_args(2) [folded j], of ?cfg "?st\<lparr>st_world := 1\<rparr>"]
  from pass two obtain st1 where it: "loop_iteration ?env ?cfg ?st = Inr st1" and w1: "st_world st1 = 1"
      and p1: "st_prefs st1 = AList.update ''topics'' (PList [PStr ''tech'', PStr ''sports''])
                                (AList.update ''tone'' (PStr ''formal'') (st_prefs ?st))"
    by simp
  have p2: "chat_post ?env (st_world st1) (st_messages st1) = (Response 200 body_final, 2)"
    by (simp add: example_env_def w1)
  have l2: "json_loads ?env body_final =
              Some (PDict [(''choices'', PList [PDict [(''message'', PDict [(''content'', PStr ''Saved.'')])]])])"
    by (simp add: j loads_final)
  note fin = content_pass [OF p2 ok l2, of ?cfg]
  from tool_loop_return [OF fin] tool_loop_continue [OF it] p1
  have c: "chat ?env ?cfg 0 ?req
    = Some (Inr (\<lparr>resp_messages = [\<lparr>role = ''user'', content = ''formal tone; tech and sports''\<rparr>,
                                  \<lparr>role = ''assistant'', content = ''Saved.''\<rparr>],
                  updatedPreferences = [(''theme'', PStr ''dark''), (''tone'', PStr ''formal''),
                                        (''language'', PStr ''English''),
                                        (''topics'', PList [PStr ''tech'', PStr ''sports''])]\<rparr>, 2))"
    by (simp add: chat_def openai_chat_with_tools_def initial_state_def)
  have quiet: "\<forall>status body. response_of_turn ?env ?cfg (initial_state ?env 0 (req_messages ?req)
                   (case req_preferences ?req of None \<Rightarrow> [] | Some p \<Rightarrow> p)) status body \<longrightarrow>
                 status < 400 \<longrightarrow> \<not> requests_save ?env body ''language''"
  proof (intro allI impI)
    fix status body
    assume "response_of_turn ?env ?cfg (initial_state ?env 0 (req_messages ?req)
              (case req_preferences ?req of None \<Rightarrow> [] | Some p \<Rightarrow> p)) status body"
    from example_responses [OF this refl] obtain n where "?script n = Response status body" by blast
    then have "body = body_tool_calls \<or> body = body_final" by (auto split: if_splits)
    then show "\<not> requests_save ?env body ''language''"
      using example_requests(3,4) [of ?script] by auto
  qed
  from keys_never_deleted [OF c] have
    "reached_by_saves ?p0 [(''theme'', PStr ''dark''), (''tone'', PStr ''formal''),
        (''language'', PStr ''English''), (''topics'', PList [PStr ''tech'', PStr ''sports''])]"
    and k: "\<forall>k. (\<forall>status body. response_of_turn ?env ?cfg (initial_state ?env 0 (req_messages ?req)
                   (case req_preferences ?req of None \<Rightarrow> [] | Some p \<Rightarrow> p)) status body \<longrightarrow>
                 status < 400 \<longrightarrow> \<not> requests_save ?env body k) \<longrightarrow>
             map_of [(''theme'', PStr ''dark''), (''tone'', PStr ''formal''),
                     (''language'', PStr ''English''), (''topics'', PList [PStr ''tech'', PStr ''sports''])] k =
             map_of (case req_preferences ?req of None \<Rightarrow> [] | Some p \<Rightarrow> p) k"
    by simp_all
  moreover from k quiet have "map_of [(''theme'', PStr ''dark''), (''tone'', PStr ''formal''),
                     (''language'', PStr ''English''), (''topics'', PList [PStr ''tech'', PStr ''sports''])] ''language'' =
             map_of (case req_preferences ?req of None \<Rightarrow> [] | Some p \<Rightarrow> p) ''language''"
    by blast
  ultimately show ?thesis
    using c example_requests(1,3,4) [of ?script] by simp
qed

end
